theory Spec2Isabelle
  imports Main "HOL-Library.Word"
begin

section \<open>JavaScript strings\<close>

text \<open>
  A JavaScript string is a sequence of UTF-16 code units. The regular expressions of the
  scripts carry no \<open>u\<close> flag, so they match code unit by code unit.
\<close>

type_synonym code_unit = "16 word"
type_synonym js_string = "code_unit list"

text \<open>An ASCII literal of the source text, as a JavaScript string.\<close>

definition lit :: "string \<Rightarrow> js_string" where
  "lit s = map (\<lambda>c. of_nat (of_char c)) s"

definition hyphen :: code_unit where
  "hyphen = 0x2D"

text \<open>The character class \<open>[a-z0-9]\<close>.\<close>

definition is_lower_digit :: "code_unit \<Rightarrow> bool" where
  "is_lower_digit c = ((0x61 \<le> c \<and> c \<le> 0x7A) \<or> (0x30 \<le> c \<and> c \<le> 0x39))"

definition is_hyphen :: "code_unit \<Rightarrow> bool" where
  "is_hyphen c = (c = hyphen)"

section \<open>The slug of a title\<close>

text \<open>
  \<open>.replace(/[^a-z0-9]+/g, "-")\<close>: scanning from the left, every maximal run of code units
  outside \<open>[a-z0-9]\<close> is replaced by one hyphen (the \<open>+\<close> is greedy, and the search for
  the next match resumes after the run).
\<close>

function replace_non_alnum :: "js_string \<Rightarrow> js_string" where
  "replace_non_alnum [] = []"
| "replace_non_alnum (c # cs) =
     (if is_lower_digit c then c # replace_non_alnum cs
      else hyphen # replace_non_alnum (dropWhile (\<lambda>d. \<not> is_lower_digit d) cs))"
  by pat_completeness auto
termination
  by (relation "measure length") (auto simp: le_imp_less_Suc length_dropWhile_le)

text \<open>
  \<open>.replace(/^-+|-+$/g, "")\<close>. The first alternative matches only at index 0 and takes the
  whole leading run of hyphens. After it, the leftmost match of the second alternative is
  the first position from which only hyphens remain up to the end of the string; it is
  removed too.
\<close>

fun strip_trailing_hyphens :: "js_string \<Rightarrow> js_string" where
  "strip_trailing_hyphens [] = []"
| "strip_trailing_hyphens (c # cs) =
     (if list_all is_hyphen (c # cs) then [] else c # strip_trailing_hyphens cs)"

definition strip_hyphens :: "js_string \<Rightarrow> js_string" where
  "strip_hyphens s = strip_trailing_hyphens (dropWhile is_hyphen s)"

text \<open>
  The slug expression of \<open>fetchBookByIsbn\<close>, \<open>fetchLightNovelById\<close>, \<open>fetchMovieById\<close>,
  \<open>fetchSerieById\<close> and \<open>fetchMangaById\<close>, and of the tag lines of their
  \<open>generateMarkdown\<close>:
  \<^verbatim>\<open>title.toLowerCase().replace(/[^a-z0-9]+/g, "-").replace(/^-+|-+$/g, "")\<close>.
  \<open>String.prototype.toLowerCase\<close> follows the Unicode case tables of the runtime, which are
  not part of the repository: it is the parameter \<open>toLowerCase\<close>.
\<close>

definition slugify :: "(js_string \<Rightarrow> js_string) \<Rightarrow> js_string \<Rightarrow> js_string" where
  "slugify toLowerCase title = strip_hyphens (replace_non_alnum (toLowerCase title))"

text \<open>What \<open>toLowerCase\<close> does on the ASCII range: \<open>A\<close> to \<open>Z\<close> become \<open>a\<close> to \<open>z\<close>.\<close>

definition ascii_toLowerCase :: "js_string \<Rightarrow> js_string" where
  "ascii_toLowerCase s = map (\<lambda>c. if 0x41 \<le> c \<and> c \<le> 0x5A then c + 0x20 else c) s"




section \<open>JavaScript values\<close>

text \<open>
  The values that \<open>JSON.parse\<close> and the HTTP client hand to \<open>getToken\<close>, together with
  \<open>undefined\<close> and \<open>NaN\<close>, which its own expressions produce. Numbers are integers: the
  clock in whole seconds and the endpoint's \<open>expires_in\<close> are, and IEEE doubles are exact on
  integers up to \<open>2 ^ 53\<close>. JSON numbers with a fraction, or too large to be exact, are
  outside this model; a number written in a string is rounded to its double, see below.
  An object is the list of its own properties, with distinct keys.
\<close>

datatype jsval =
    JUndefined
  | JNull
  | JBool bool
  | JNum int
  | JNaN
  | JStr js_string
  | JArr "jsval list"
  | JObj "(js_string \<times> jsval) list"

datatype js_error =
    AxiosError "nat option"  \<comment> \<open>the status of the response; \<open>None\<close> when there was no response\<close>
  | TypeError
  | SyntaxError
  | SystemError  \<comment> \<open>a failed file-system call\<close>

text \<open>
  Property access \<open>v.k\<close>: a TypeError on \<open>undefined\<close> and \<open>null\<close>, the own property of an
  object, \<open>undefined\<close> where there is none. It is used with the keys \<open>expires_at\<close>,
  \<open>access_token\<close> and \<open>expires_in\<close> only, which no prototype defines.
\<close>

fun get_member :: "jsval \<Rightarrow> js_string \<Rightarrow> js_error + jsval" where
  "get_member JUndefined k = Inl TypeError"
| "get_member JNull k = Inl TypeError"
| "get_member (JObj kvs) k = Inr (case map_of kvs k of None \<Rightarrow> JUndefined | Some v \<Rightarrow> v)"
| "get_member v k = Inr JUndefined"

subsection \<open>Conversion to a string\<close>

text \<open>The decimal digits of a non-negative integer.\<close>

function digits_of :: "int \<Rightarrow> js_string" where
  "digits_of n =
     (if n < 10 then [0x30 + of_int n]
      else digits_of (n div 10) @ [0x30 + of_int (n mod 10)])"
  by pat_completeness auto
termination
  by (relation "measure nat") auto

declare digits_of.simps [simp del]

text \<open>\<open>Number::toString\<close> on an integer (below \<open>10 ^ 21\<close>, where the decimal form is used).\<close>

definition num_to_string :: "int \<Rightarrow> js_string" where
  "num_to_string n = (if n < 0 then hyphen # digits_of (- n) else digits_of n)"

fun join_strings :: "js_string \<Rightarrow> js_string list \<Rightarrow> js_string" where
  "join_strings sep [] = []"
| "join_strings sep [x] = x"
| "join_strings sep (x # y # ys) = x @ sep @ join_strings sep (y # ys)"

text \<open>
  \<open>ToString\<close>, which may throw. An array is joined with commas, from left to right,
  \<open>undefined\<close> and \<open>null\<close> elements giving the empty string (\<open>Array.prototype.join\<close>).
  An object goes through \<open>ToPrimitive\<close>: the inherited \<open>valueOf\<close> returns the object
  itself, and the inherited \<open>toString\<close> gives \<open>[object Object]\<close>; but an own property
  \<open>toString\<close>, which in a parsed value is never a function, hides the inherited one, and
  the conversion throws a TypeError.
\<close>

fun js_to_string :: "jsval \<Rightarrow> js_error + js_string"
  and elements_to_strings :: "jsval list \<Rightarrow> js_error + js_string list" where
  "js_to_string JUndefined = Inr (lit ''undefined'')"
| "js_to_string JNull = Inr (lit ''null'')"
| "js_to_string (JBool b) = Inr (if b then lit ''true'' else lit ''false'')"
| "js_to_string (JNum n) = Inr (num_to_string n)"
| "js_to_string JNaN = Inr (lit ''NaN'')"
| "js_to_string (JStr s) = Inr s"
| "js_to_string (JArr xs) =
     (case elements_to_strings xs of
        Inl err \<Rightarrow> Inl err
      | Inr ss \<Rightarrow> Inr (join_strings (lit '','') ss))"
| "js_to_string (JObj kvs) =
     (if map_of kvs (lit ''toString'') \<noteq> None then Inl TypeError
      else Inr (lit ''[object Object]''))"
| "elements_to_strings [] = Inr []"
| "elements_to_strings (x # xs) =
     (case (if x = JUndefined \<or> x = JNull then Inr [] else js_to_string x) of
        Inl err \<Rightarrow> Inl err
      | Inr s \<Rightarrow>
          (case elements_to_strings xs of
             Inl err \<Rightarrow> Inl err
           | Inr ss \<Rightarrow> Inr (s # ss)))"

subsection \<open>Conversion of a string to a number\<close>

text \<open>
  What a string denotes as a numeric literal: nothing, an infinity, or the decimal
  \<open>mantissa * 10 ^ exponent\<close>.
\<close>

datatype strnum = SNaN | SPosInf | SNegInf | SDec int int

text \<open>White space and line terminators, which \<open>StringToNumber\<close> strips on both sides.\<close>

definition is_js_space :: "code_unit \<Rightarrow> bool" where
  "is_js_space c =
     (c \<in> set [0x9, 0xA, 0xB, 0xC, 0xD, 0x20, 0xA0, 0x1680, 0x2028, 0x2029, 0x202F, 0x205F,
        0x3000, 0xFEFF] \<or> (0x2000 \<le> c \<and> c \<le> 0x200A))"

definition trim_js_space :: "js_string \<Rightarrow> js_string" where
  "trim_js_space s = rev (dropWhile is_js_space (rev (dropWhile is_js_space s)))"

definition is_digit :: "code_unit \<Rightarrow> bool" where
  "is_digit c = (0x30 \<le> c \<and> c \<le> 0x39)"

text \<open>The value of a digit in a base up to 16, when the code unit is one.\<close>

definition digit_value :: "int \<Rightarrow> code_unit \<Rightarrow> int option" where
  "digit_value base c =
     (let v = (if 0x30 \<le> c \<and> c \<le> 0x39 then Some (uint c - 0x30)
               else if 0x61 \<le> c \<and> c \<le> 0x66 then Some (uint c - 0x61 + 10)
               else if 0x41 \<le> c \<and> c \<le> 0x46 then Some (uint c - 0x41 + 10)
               else None)
      in case v of None \<Rightarrow> None | Some d \<Rightarrow> if d < base then Some d else None)"

fun digits_value :: "int \<Rightarrow> int \<Rightarrow> js_string \<Rightarrow> int option" where
  "digits_value base acc [] = Some acc"
| "digits_value base acc (c # cs) =
     (case digit_value base c of
        None \<Rightarrow> None
      | Some d \<Rightarrow> digits_value base (acc * base + d) cs)"

text \<open>\<open>0x\<close>, \<open>0o\<close> and \<open>0b\<close> literals: the prefix, then at least one digit of the base.\<close>

definition non_decimal_literal :: "js_string \<Rightarrow> strnum option" where
  "non_decimal_literal s =
     (case s of
        z # p # ds \<Rightarrow>
          (let base = (if p = 0x78 \<or> p = 0x58 then 16
                       else if p = 0x6F \<or> p = 0x4F then 8
                       else if p = 0x62 \<or> p = 0x42 then 2 else (0::int))
           in if z = 0x30 \<and> base \<noteq> 0
              then Some (case (if ds = [] then None else digits_value base 0 ds) of
                           None \<Rightarrow> SNaN | Some n \<Rightarrow> SDec n 0)
              else None)
      | _ \<Rightarrow> None)"

text \<open>An exponent part: \<open>e\<close> or \<open>E\<close>, an optional sign, at least one digit, nothing after.\<close>

definition exponent_part :: "js_string \<Rightarrow> int option" where
  "exponent_part s =
     (case s of
        [] \<Rightarrow> Some 0
      | e # r \<Rightarrow>
          if e = 0x65 \<or> e = 0x45 then
            (let neg = (r \<noteq> [] \<and> hd r = 0x2D);
                 ds = (if r \<noteq> [] \<and> (hd r = 0x2D \<or> hd r = 0x2B) then tl r else r)
             in if ds = [] then None
                else case digits_value 10 0 ds of
                       None \<Rightarrow> None
                     | Some n \<Rightarrow> Some (if neg then - n else n))
          else None)"

text \<open>
  An unsigned decimal literal: digits, an optional point with digits, an optional
  exponent; at least one digit before the exponent.
\<close>

definition unsigned_decimal :: "js_string \<Rightarrow> (int \<times> int) option" where
  "unsigned_decimal s =
     (let ip = takeWhile is_digit s;
          r1 = dropWhile is_digit s;
          dot = (r1 \<noteq> [] \<and> hd r1 = 0x2E);
          fp = (if dot then takeWhile is_digit (tl r1) else []);
          r2 = (if dot then dropWhile is_digit (tl r1) else r1)
      in if ip = [] \<and> fp = [] then None
         else case (digits_value 10 0 (ip @ fp), exponent_part r2) of
                (Some m, Some e) \<Rightarrow> Some (m, e - int (length fp))
              | _ \<Rightarrow> None)"

definition string_literal_value :: "js_string \<Rightarrow> strnum" where
  "string_literal_value s =
     (let t = trim_js_space s in
      if t = [] then SDec 0 0
      else case non_decimal_literal t of
        Some r \<Rightarrow> r
      | None \<Rightarrow>
          (let neg = (hd t = 0x2D);
               u = (if hd t = 0x2D \<or> hd t = 0x2B then tl t else t)
           in if u = lit ''Infinity'' then (if neg then SNegInf else SPosInf)
              else case unsigned_decimal u of
                     None \<Rightarrow> SNaN
                   | Some (m, e) \<Rightarrow> SDec (if neg then - m else m) e))"

subsection \<open>Numbers as IEEE doubles\<close>

text \<open>
  A Number value: \<open>NaN\<close>, an infinity, or the finite double \<open>m * 2 ^ k\<close>. The numbers
  held by a \<open>jsval\<close> are integers, which stand for themselves; a numeric string is
  rounded to the nearest double, ties to the even mantissa, as the engine does.
\<close>

datatype js_double = DNaN | DPosInf | DNegInf | DFin int int

text \<open>The number of binary digits of a positive integer.\<close>

function bit_length :: "int \<Rightarrow> int" where
  "bit_length n = (if n \<le> 0 then 0 else 1 + bit_length (n div 2))"
  by pat_completeness auto
termination
  by (relation "measure nat") auto

declare bit_length.simps [simp del]

text \<open>The fraction \<open>p / (q * 2 ^ k)\<close>, for any integer \<open>k\<close>, as a pair.\<close>

definition scale2 :: "int \<Rightarrow> int \<Rightarrow> int \<Rightarrow> int \<times> int" where
  "scale2 p q k = (if 0 \<le> k then (p, q * 2 ^ nat k) else (p * 2 ^ nat (- k), q))"

text \<open>The integer nearest to \<open>p / q\<close> for \<open>q > 0\<close>, the even one of two equally near.\<close>

definition round_half_even :: "int \<Rightarrow> int \<Rightarrow> int" where
  "round_half_even p q =
     (let f = p div q; r = 2 * (p mod q)
      in if r < q then f else if q < r then f + 1 else if even f then f else f + 1)"

text \<open>
  The double nearest to \<open>p / q\<close>, for \<open>p \<ge> 0\<close> and \<open>q > 0\<close>. The exponent \<open>k\<close> is chosen so
  that the mantissa has 53 binary digits, but not below \<open>-1074\<close>, the exponent of the
  subnormal numbers; what rounds to \<open>2 ^ 1024\<close> or more is an infinity.
\<close>

definition nearest_double :: "int \<Rightarrow> int \<Rightarrow> js_double" where
  "nearest_double p q =
     (if p = 0 then DFin 0 0
      else
        (let k0 = bit_length p - bit_length q - 53;
             k1 = (case scale2 p q k0 of (a, b) \<Rightarrow> if 2 ^ 53 * b \<le> a then k0 + 1 else k0);
             k = max k1 (- 1074);
             m = (case scale2 p q k of (a, b) \<Rightarrow> round_half_even a b)
         in if 972 \<le> k \<or> (k = 971 \<and> 2 ^ 53 \<le> m) then DPosInf else DFin m k))"

text \<open>The Number value of a numeric literal.\<close>

definition double_of_literal :: "strnum \<Rightarrow> js_double" where
  "double_of_literal x =
     (case x of
        SNaN \<Rightarrow> DNaN
      | SPosInf \<Rightarrow> DPosInf
      | SNegInf \<Rightarrow> DNegInf
      | SDec m e \<Rightarrow>
          (case (if 0 \<le> e then nearest_double (\<bar>m\<bar> * 10 ^ nat e) 1
                 else nearest_double \<bar>m\<bar> (10 ^ nat (- e))) of
             DFin a k \<Rightarrow> DFin (if m < 0 then - a else a) k
           | DPosInf \<Rightarrow> (if m < 0 then DNegInf else DPosInf)
           | d \<Rightarrow> d))"

text \<open>\<open>StringToNumber\<close>.\<close>

definition string_to_number :: "js_string \<Rightarrow> js_double" where
  "string_to_number s = double_of_literal (string_literal_value s)"

subsection \<open>The operators \<open>>\<close> and \<open>+\<close> with a number on one side\<close>

text \<open>
  \<open>ToNumber\<close> after \<open>ToPrimitive\<close>: an array or an object is first converted to its
  string, which may throw.
\<close>

fun to_number :: "jsval \<Rightarrow> js_error + js_double" where
  "to_number JUndefined = Inr DNaN"
| "to_number JNull = Inr (DFin 0 0)"
| "to_number (JBool b) = Inr (DFin (if b then 1 else 0) 0)"
| "to_number (JNum n) = Inr (DFin n 0)"
| "to_number JNaN = Inr DNaN"
| "to_number (JStr s) = Inr (string_to_number s)"
| "to_number (JArr xs) =
     (case js_to_string (JArr xs) of Inl err \<Rightarrow> Inl err | Inr s \<Rightarrow> Inr (string_to_number s))"
| "to_number (JObj kvs) =
     (case js_to_string (JObj kvs) of Inl err \<Rightarrow> Inl err | Inr s \<Rightarrow> Inr (string_to_number s))"

text \<open>\<open>d > n\<close> for a double \<open>d\<close> and an integer \<open>n\<close>: false for \<open>NaN\<close>.\<close>

definition double_gt :: "js_double \<Rightarrow> int \<Rightarrow> bool" where
  "double_gt d n =
     (case d of
        DNaN \<Rightarrow> False
      | DPosInf \<Rightarrow> True
      | DNegInf \<Rightarrow> False
      | DFin m k \<Rightarrow> if 0 \<le> k then n < m * 2 ^ nat k else n * 2 ^ nat (- k) < m)"

text \<open>\<open>v > now\<close> for a number \<open>now\<close>; the conversion of \<open>v\<close> may throw.\<close>

definition js_gt :: "jsval \<Rightarrow> int \<Rightarrow> js_error + bool" where
  "js_gt v now =
     (case to_number v of
        Inl err \<Rightarrow> Inl err
      | Inr d \<Rightarrow> Inr (double_gt d now))"

text \<open>
  \<open>now + v\<close> for a number \<open>now\<close>: a sum when \<open>v\<close> is \<open>undefined\<close>, \<open>null\<close>, a boolean or a
  number, and the concatenation of the two strings when \<open>v\<close> is a string, an array or an
  object, whose conversion may throw.
\<close>

fun js_add :: "int \<Rightarrow> jsval \<Rightarrow> js_error + jsval" where
  "js_add now JUndefined = Inr JNaN"
| "js_add now JNull = Inr (JNum now)"
| "js_add now (JBool b) = Inr (JNum (now + (if b then 1 else 0)))"
| "js_add now (JNum n) = Inr (JNum (now + n))"
| "js_add now JNaN = Inr JNaN"
| "js_add now v =
     (case js_to_string v of
        Inl err \<Rightarrow> Inl err
      | Inr s \<Rightarrow> Inr (JStr (num_to_string now @ s)))"

subsection \<open>\<open>JSON.stringify\<close> followed by \<open>JSON.parse\<close>\<close>

text \<open>
  What is read back from the text that \<open>JSON.stringify\<close> writes for a value: \<open>NaN\<close> is
  written as \<open>null\<close>, a property whose value is \<open>undefined\<close> is left out, and an
  \<open>undefined\<close> array element is written as \<open>null\<close>.
\<close>

fun json_roundtrip :: "jsval \<Rightarrow> jsval" where
  "json_roundtrip JNaN = JNull"
| "json_roundtrip (JArr xs) =
     JArr (map (\<lambda>x. if x = JUndefined then JNull else json_roundtrip x) xs)"
| "json_roundtrip (JObj kvs) =
     JObj (map (\<lambda>(k, v). (k, json_roundtrip v)) (filter (\<lambda>(k, v). v \<noteq> JUndefined) kvs))"
| "json_roundtrip v = v"

section \<open>The cached bearer token of the game script\<close>

text \<open>
  The token file \<open>./tokenTwitch.json\<close> as \<open>getToken\<close> sees it: missing
  (\<open>fs.existsSync\<close> is false), present but \<open>fs.readFileSync\<close> throws, readable but
  \<open>JSON.parse\<close> throws, or holding a JSON text that parses to a value.
\<close>

datatype token_file = NoFile | Unreadable | Garbage | Json jsval

text \<open>
  What the process can observe and change: the token file and the number of POST requests
  sent to the token endpoint.
\<close>

record world =
  token_file :: token_file
  http_posts :: nat

text \<open>
  The answer of the token endpoint to \<open>axios.post\<close>: no response at all, or a response with
  its status and its body as the client hands it over (the parsed JSON, or the text as a
  string when it is not JSON).
\<close>

datatype http_outcome = NetworkError | Response nat jsval

text \<open>
  What \<open>fs.writeFileSync\<close> does: it writes the text, or it throws and leaves the file in
  some state.
\<close>

datatype write_outcome = WriteOk | WriteFails token_file

text \<open>
  The surroundings of one call: the two readings of \<open>Date.now()\<close> in milliseconds (before
  the expiry test and after the exchange), the endpoint and the file system.
\<close>

record env =
  ms_at_check :: int
  ms_at_refresh :: int
  exchange :: http_outcome
  fs_write :: write_outcome

text \<open>\<open>Math.floor(Date.now() / 1000)\<close>.\<close>

definition seconds :: "int \<Rightarrow> int" where
  "seconds ms = ms div 1000"

text \<open>
  \<open>fetchNewToken\<close>: one POST. The client rejects on a network error and on a status
  outside 2xx; the \<open>catch\<close> logs the error and throws it again. Otherwise the body is
  returned as it is.
\<close>

definition fetchNewToken :: "env \<Rightarrow> world \<Rightarrow> (js_error + jsval) \<times> world" where
  "fetchNewToken e w =
     (let w' = w\<lparr>http_posts := Suc (http_posts w)\<rparr> in
      case exchange e of
        NetworkError \<Rightarrow> (Inl (AxiosError None), w')
      | Response status body \<Rightarrow>
          if 200 \<le> status \<and> status < 300 then (Inr body, w')
          else (Inl (AxiosError (Some status)), w'))"

text \<open>
  The first block of \<open>getToken\<close>: the test of the saved token. \<open>Inr (Some t)\<close> is
  \<open>return saved.access_token\<close>, \<open>Inr None\<close> falls through to the exchange, \<open>Inl\<close> is a
  thrown error: of the file system, of \<open>JSON.parse\<close>, of the property access on \<open>null\<close>,
  or of the comparison.
\<close>

definition read_saved :: "int \<Rightarrow> token_file \<Rightarrow> js_error + jsval option" where
  "read_saved ms f =
     (case f of
        NoFile \<Rightarrow> Inr None
      | Unreadable \<Rightarrow> Inl SystemError
      | Garbage \<Rightarrow> Inl SyntaxError
      | Json saved \<Rightarrow>
          (case get_member saved (lit ''expires_at'') of
             Inl err \<Rightarrow> Inl err
           | Inr expires_at \<Rightarrow>
               (case js_gt expires_at (seconds ms) of
                  Inl err \<Rightarrow> Inl err
                | Inr True \<Rightarrow>
                    (case get_member saved (lit ''access_token'') of
                       Inl err \<Rightarrow> Inl err
                     | Inr t \<Rightarrow> Inr (Some t))
                | Inr False \<Rightarrow> Inr None)))"

text \<open>The object literal \<open>{ access_token: ..., expires_at: ... }\<close> that is saved.\<close>

definition token_record :: "jsval \<Rightarrow> jsval \<Rightarrow> jsval" where
  "token_record t x = JObj [(lit ''access_token'', t), (lit ''expires_at'', x)]"

text \<open>
  \<open>fs.writeFileSync(TOKEN_FILE, JSON.stringify({access_token, expires_at}, null, 4))\<close>.
\<close>

definition save_token :: "env \<Rightarrow> jsval \<Rightarrow> jsval \<Rightarrow> world \<Rightarrow> (js_error + unit) \<times> world" where
  "save_token e access_token expires_at w =
     (case fs_write e of
        WriteOk \<Rightarrow>
          (Inr (),
           w\<lparr>token_file := Json (json_roundtrip (token_record access_token expires_at))\<rparr>)
      | WriteFails f \<Rightarrow> (Inl SystemError, w\<lparr>token_file := f\<rparr>))"

text \<open>The second block of \<open>getToken\<close>: the exchange, and the saving of its result.\<close>

definition refresh_token :: "env \<Rightarrow> world \<Rightarrow> (js_error + jsval) \<times> world" where
  "refresh_token e w =
     (case fetchNewToken e w of
        (Inl err, w1) \<Rightarrow> (Inl err, w1)
      | (Inr data, w1) \<Rightarrow>
          (case get_member data (lit ''expires_in'') of
             Inl err \<Rightarrow> (Inl err, w1)
           | Inr expires_in \<Rightarrow>
               (case js_add (seconds (ms_at_refresh e)) expires_in of
                  Inl err \<Rightarrow> (Inl err, w1)
                | Inr expires_at \<Rightarrow>
                    (case get_member data (lit ''access_token'') of
                       Inl err \<Rightarrow> (Inl err, w1)
                     | Inr t \<Rightarrow>
                         (case save_token e t expires_at w1 of
                            (Inl err, w2) \<Rightarrow> (Inl err, w2)
                          | (Inr u, w2) \<Rightarrow> (Inr t, w2))))))"

text \<open>The body of the \<open>try\<close> of \<open>getToken\<close>.\<close>

definition getToken_try :: "env \<Rightarrow> world \<Rightarrow> (js_error + jsval) \<times> world" where
  "getToken_try e w =
     (case read_saved (ms_at_check e) (token_file w) of
        Inl err \<Rightarrow> (Inl err, w)
      | Inr (Some t) \<Rightarrow> (Inr t, w)
      | Inr None \<Rightarrow> refresh_token e w)"

text \<open>
  \<open>getToken\<close>: the \<open>catch\<close> logs whatever was thrown and returns \<open>null\<close>. The result is
  kept as a sum, so that "no error reaches the caller" is a statement about it.
\<close>

definition getToken :: "env \<Rightarrow> world \<Rightarrow> (js_error + jsval) \<times> world" where
  "getToken e w =
     (case getToken_try e w of
        (Inl err, w') \<Rightarrow> (Inr JNull, w')
      | (Inr v, w') \<Rightarrow> (Inr v, w'))"

text \<open>The states in which the first block falls through to the exchange.\<close>

definition cache_miss :: "env \<Rightarrow> world \<Rightarrow> bool" where
  "cache_miss e w = (read_saved (ms_at_check e) (token_file w) = Inr None)"

text \<open>A failing exchange: no response, or a status outside 2xx.\<close>

definition exchange_fails :: "env \<Rightarrow> bool" where
  "exchange_fails e =
     (case exchange e of
        NetworkError \<Rightarrow> True
      | Response status body \<Rightarrow> \<not> (200 \<le> status \<and> status < 300))"

subsection \<open>Sample states\<close>

text \<open>
  A response body of the shape that \<open>fetchNewToken\<close> declares,
  \<open>{ access_token: string, expires_in: number }\<close>.
\<close>

definition token_response :: "jsval \<Rightarrow> jsval \<Rightarrow> jsval" where
  "token_response t n = JObj [(lit ''access_token'', t), (lit ''expires_in'', n)]"

definition tok1 :: jsval where
  "tok1 = JStr (lit ''tok1'')"

definition tok2 :: jsval where
  "tok2 = JStr (lit ''tok2'')"

text \<open>A fresh process with the given token file.\<close>

definition world_with :: "token_file \<Rightarrow> world" where
  "world_with f = \<lparr>token_file = f, http_posts = 0\<rparr>"

text \<open>
  A call in second 1700000000 of the epoch, with the given answer of the endpoint and a
  file system that accepts the write.
\<close>

definition env_with :: "http_outcome \<Rightarrow> env" where
  "env_with r =
     \<lparr>ms_at_check = 1700000000123, ms_at_refresh = 1700000000987, exchange = r,
      fs_write = WriteOk\<rparr>"

section \<open>Notes and covers\<close>

text \<open>
  What a script run asks of the outside world, in order: \<open>downloadImage(url, filename)\<close>
  and \<open>createMarkdownFile(content, filename)\<close>. Each catches its own errors, so a failing
  download or write does not change what follows. The directory, which is fixed by the
  script and the media type, is left out.
\<close>

datatype effect =
    DownloadImage js_string js_string  \<comment> \<open>the URL and the file name\<close>
  | CreateMarkdownFile js_string js_string  \<comment> \<open>the content and the file name\<close>

text \<open>How a fetch function ends: \<open>process.exit\<close>, \<open>return null\<close>, or the record.\<close>

datatype 'a fetch_result = Exit int | ReturnNull | Return 'a

text \<open>
  The answer of a metadata API as the script reads it: the request or the access to the
  item throws, or the item is there. The items are modelled at the types the scripts use
  them at; a field that may be missing is an \<open>option\<close>.
\<close>

datatype 'a api_answer = ApiFailure | ApiItem 'a

subsection \<open>String operations of the templates\<close>

text \<open>\<open>s.split("\n")\<close>: the pieces between line feeds; one empty piece for the empty string.\<close>

fun split_lines :: "js_string \<Rightarrow> js_string list" where
  "split_lines [] = [[]]"
| "split_lines (c # cs) =
     (if c = 0x0A then [] # split_lines cs
      else case split_lines cs of
             [] \<Rightarrow> [[c]]
           | l # ls \<Rightarrow> (c # l) # ls)"

text \<open>\<open>${x}\<close> for an optional string: the text \<open>undefined\<close> when it is missing.\<close>

definition template_opt :: "js_string option \<Rightarrow> js_string" where
  "template_opt x = (case x of None \<Rightarrow> lit ''undefined'' | Some s \<Rightarrow> s)"

text \<open>\<open>summary?.split("\n").map(line => `> ${line}`).join("\n")\<close>.\<close>

definition quote_lines :: "js_string \<Rightarrow> js_string" where
  "quote_lines summary =
     join_strings (lit ''\<newline>'') (map (\<lambda>line. lit ''> '' @ line) (split_lines summary))"

text \<open>\<open>tags?.map(tag => `- ${f(tag)}`).join("\n    ")\<close>.\<close>

definition tag_lines :: "(js_string \<Rightarrow> js_string) \<Rightarrow> js_string list \<Rightarrow> js_string" where
  "tag_lines f tags = join_strings (lit ''\<newline>    '') (map (\<lambda>tag. lit ''- '' @ f tag) tags)"

text \<open>Truthiness of an optional string: missing and empty are falsy.\<close>

definition truthy :: "js_string option \<Rightarrow> bool" where
  "truthy x = (case x of None \<Rightarrow> False | Some s \<Rightarrow> s \<noteq> [])"

text \<open>\<open>a || b\<close>.\<close>

definition js_or :: "js_string option \<Rightarrow> js_string option \<Rightarrow> js_string option" where
  "js_or a b = (if truthy a then a else b)"

text \<open>\<open>s.replace(pattern, replacement)\<close> with a string pattern: the first occurrence.\<close>

fun replace_first :: "js_string \<Rightarrow> js_string \<Rightarrow> js_string \<Rightarrow> js_string" where
  "replace_first pat rep [] = (if pat = [] then rep else [])"
| "replace_first pat rep (c # cs) =
     (if take (length pat) (c # cs) = pat then rep @ drop (length pat) (c # cs)
      else c # replace_first pat rep cs)"

text \<open>
  The step that the book, light-novel, movie, series and manga scripts share:
  \<^verbatim>\<open>if (cover_url) { await downloadImage(cover_url, `${info.slug}.jpg`); }\<close>.
\<close>

definition download_cover :: "js_string option \<Rightarrow> js_string \<Rightarrow> effect list" where
  "download_cover cover_url slug =
     (if truthy cover_url then [DownloadImage (template_opt cover_url) (slug @ lit ''.jpg'')]
      else [])"

subsection \<open>The book script\<close>

record BookInfo =
  book_title :: js_string
  book_slug :: js_string
  book_year :: "js_string option"
  book_categories :: "js_string list option"
  book_summary :: "js_string option"

text \<open>The fields of \<open>volumeInfo\<close> that the script reads.\<close>

record ImageLinks =
  extraLarge :: "js_string option"
  large :: "js_string option"
  medium :: "js_string option"
  thumbnail :: "js_string option"
  smallThumbnail :: "js_string option"

record VolumeInfo =
  vi_title :: js_string
  vi_publishedDate :: "js_string option"
  vi_categories :: "js_string list option"
  vi_description :: "js_string option"
  vi_imageLinks :: "ImageLinks option"

definition getYear :: "js_string option \<Rightarrow> js_string" where
  "getYear publishedDate = (if \<not> truthy publishedDate then [] else take 4 (template_opt publishedDate))"

definition getCoverUrl :: "ImageLinks option \<Rightarrow> js_string option" where
  "getCoverUrl imageLinks =
     (case imageLinks of
        None \<Rightarrow> Some []
      | Some l \<Rightarrow>
          js_or (js_or (js_or (js_or (extraLarge l) (large l)) (medium l)) (thumbnail l))
            (smallThumbnail l))"

definition fetchBookByIsbn ::
  "(js_string \<Rightarrow> js_string) \<Rightarrow> VolumeInfo api_answer \<Rightarrow> bool \<Rightarrow> BookInfo fetch_result \<times> effect list"
where
  "fetchBookByIsbn toLowerCase answer confirm =
     (case answer of
        ApiFailure \<Rightarrow> (ReturnNull, [])
      | ApiItem book_fetched \<Rightarrow>
          if \<not> confirm then (Exit 0, [])
          else
            (let book_info =
                   \<lparr>book_title = vi_title book_fetched,
                    book_slug = slugify toLowerCase (vi_title book_fetched),
                    book_year = Some (getYear (vi_publishedDate book_fetched)),
                    book_categories =
                      Some (case vi_categories book_fetched of None \<Rightarrow> [] | Some cs \<Rightarrow> cs),
                    book_summary =
                      Some (case vi_description book_fetched of
                              None \<Rightarrow> lit ''No summary available'' | Some d \<Rightarrow> d)\<rparr>;
                 cover_url = getCoverUrl (vi_imageLinks book_fetched)
             in (Return book_info, download_cover cover_url (book_slug book_info))))"

definition generateMarkdown_book :: "(js_string \<Rightarrow> js_string) \<Rightarrow> BookInfo \<Rightarrow> js_string" where
  \<open>generateMarkdown_book toLowerCase book_info =
     lit ''---\<newline>title: "'' @ book_title book_info @
     lit ''"\<newline>rating:\<newline>year: "'' @ template_opt (book_year book_info) @
     lit ''"\<newline>tags:\<newline>    - book\<newline>    '' @
     template_opt (map_option (tag_lines (slugify toLowerCase)) (book_categories book_info)) @
     lit ''\<newline>    - wishlist\<newline>cover: "[['' @ book_slug book_info @
     lit ''.jpg]]"\<newline>---\<newline>> [!NOTE] Summary\<newline>'' @
     template_opt (map_option quote_lines (book_summary book_info))\<close>

text \<open>\<open>main\<close> of the book script, after the prompt for the ISBN.\<close>

definition main_book ::
  "(js_string \<Rightarrow> js_string) \<Rightarrow> VolumeInfo api_answer \<Rightarrow> bool \<Rightarrow> effect list"
where
  "main_book toLowerCase answer confirm =
     (case fetchBookByIsbn toLowerCase answer confirm of
        (Return bookInfo, effects) \<Rightarrow>
          effects @
          [CreateMarkdownFile (generateMarkdown_book toLowerCase bookInfo)
             (book_slug bookInfo @ lit ''.md'')]
      | (other, effects) \<Rightarrow> effects)"

subsection \<open>The light-novel script\<close>

record LightNovelInfo =
  ln_title :: js_string
  ln_slug :: js_string
  ln_year :: "js_string option"
  ln_genres :: "js_string list option"
  ln_themes :: "js_string list option"
  ln_summary :: "js_string option"

text \<open>
  A book of the series: its \<open>book_type\<close>, the \<open>filename\<close> of its \<open>image\<close> when it has
  one, and its \<open>sort_order\<close>.
\<close>

record SeriesBook =
  sb_book_type :: js_string
  sb_image :: "js_string option"
  sb_sort_order :: int

text \<open>
  The fields of \<open>series\<close> that the script reads. A tag is its \<open>ttype\<close> and its \<open>name\<close>;
  \<open>ls_book_description\<close> is the \<open>book_description\<close> object when there is one, holding its
  \<open>description\<close> when it has one.
\<close>

record Series =
  ls_title :: js_string
  ls_start_date :: "int option"
  ls_tags :: "(js_string \<times> js_string) list option"
  ls_book_description :: "js_string option option"
  ls_books :: "SeriesBook list option"

text \<open>
  \<open>getCoverUrl\<close> of the light-novel script: the first of the main books with an image, in
  the order of \<open>sort_order\<close> (\<open>Array.prototype.sort\<close> is stable).
\<close>

definition getCoverUrl_ln :: "Series \<Rightarrow> js_string option" where
  "getCoverUrl_ln series =
     (case ls_books series of
        None \<Rightarrow> None
      | Some books \<Rightarrow>
          (case sort_key sb_sort_order
                  (filter (\<lambda>b. sb_book_type b = lit ''main'' \<and> sb_image b \<noteq> None) books) of
             [] \<Rightarrow> None
           | mainBook # rest \<Rightarrow>
               (case sb_image mainBook of
                  None \<Rightarrow> None
                | Some filename \<Rightarrow> Some (lit ''https://images.ranobedb.org/'' @ filename))))"

text \<open>
  \<open>fetchLightNovelById\<close>. \<open>start_date.toString()\<close> and \<open>book_description.description\<close>
  throw when \<open>start_date\<close> or \<open>book_description\<close> is missing, and the \<open>catch\<close> returns
  \<open>null\<close>.
\<close>

definition fetchLightNovelById ::
  "(js_string \<Rightarrow> js_string) \<Rightarrow> Series api_answer \<Rightarrow> bool \<Rightarrow>
   LightNovelInfo fetch_result \<times> effect list"
where
  "fetchLightNovelById toLowerCase answer confirm =
     (case answer of
        ApiFailure \<Rightarrow> (ReturnNull, [])
      | ApiItem series \<Rightarrow>
          if \<not> confirm then (Exit 0, [])
          else
            (case ls_start_date series of
               None \<Rightarrow> (ReturnNull, [])
             | Some start_date \<Rightarrow>
                 (let startDateStr = num_to_string start_date in
                  case ls_book_description series of
                    None \<Rightarrow> (ReturnNull, [])
                  | Some description \<Rightarrow>
                      (let ln_info =
                             \<lparr>ln_title = ls_title series,
                              ln_slug = slugify toLowerCase (ls_title series),
                              ln_year = Some (if start_date \<noteq> 0 then take 4 startDateStr else []),
                              ln_genres =
                                Some (case ls_tags series of
                                        None \<Rightarrow> []
                                      | Some tags \<Rightarrow>
                                          map snd (filter (\<lambda>tag. fst tag = lit ''genre'') tags)),
                              ln_themes =
                                Some (case ls_tags series of
                                        None \<Rightarrow> []
                                      | Some tags \<Rightarrow>
                                          map snd (filter (\<lambda>tag. fst tag = lit ''tag'') tags)),
                              ln_summary =
                                Some (case description of None \<Rightarrow> [] | Some d \<Rightarrow> d)\<rparr>;
                           cover_url = getCoverUrl_ln series
                       in (Return ln_info, download_cover cover_url (ln_slug ln_info))))))"

definition generateMarkdown_ln :: "(js_string \<Rightarrow> js_string) \<Rightarrow> LightNovelInfo \<Rightarrow> js_string" where
  \<open>generateMarkdown_ln toLowerCase ln_info =
     lit ''---\<newline>title: "'' @ ln_title ln_info @
     lit ''"\<newline>rating:\<newline>year: "'' @ template_opt (ln_year ln_info) @
     lit ''"\<newline>tags:\<newline>    - lightnovel\<newline>    '' @
     template_opt (map_option (tag_lines (slugify toLowerCase)) (ln_genres ln_info)) @
     lit ''\<newline>    '' @
     template_opt (map_option (tag_lines (slugify toLowerCase)) (ln_themes ln_info)) @
     lit ''\<newline>    - wishlist\<newline>cover: "[['' @ ln_slug ln_info @
     lit ''.jpg]]"\<newline>---\<newline>> [!NOTE] Summary\<newline>'' @
     template_opt (map_option quote_lines (ln_summary ln_info))\<close>

text \<open>\<open>main\<close> of the light-novel script, after the prompt for the id.\<close>

definition main_ln ::
  "(js_string \<Rightarrow> js_string) \<Rightarrow> Series api_answer \<Rightarrow> bool \<Rightarrow> effect list"
where
  "main_ln toLowerCase answer confirm =
     (case fetchLightNovelById toLowerCase answer confirm of
        (Return ln_info, effects) \<Rightarrow>
          effects @
          [CreateMarkdownFile (generateMarkdown_ln toLowerCase ln_info)
             (ln_slug ln_info @ lit ''.md'')]
      | (other, effects) \<Rightarrow> effects)"

subsection \<open>The movie and series script\<close>

record MediaInfo =
  media_title :: js_string
  media_slug :: js_string
  media_release_date :: "js_string option"
  media_genres :: "js_string list option"
  media_summary :: "js_string option"

text \<open>
  The fields of a TMDB movie (\<open>title\<close>, \<open>release_date\<close>) or series (\<open>name\<close>,
  \<open>first_air_date\<close>) that the script reads; \<open>tmdb_genres\<close> holds the names of the genres.
\<close>

record TmdbItem =
  tmdb_title :: js_string
  tmdb_date :: "js_string option"
  tmdb_genres :: "js_string list option"
  tmdb_overview :: "js_string option"
  tmdb_poster_path :: "js_string option"

text \<open>
  \<^verbatim>\<open>poster_path ? `https://image.tmdb.org/t/p/original${poster_path}` : ""\<close>.
\<close>

definition poster_url :: "js_string option \<Rightarrow> js_string option" where
  "poster_url poster_path =
     (if truthy poster_path
      then Some (lit ''https://image.tmdb.org/t/p/original'' @ template_opt poster_path)
      else Some [])"

definition fetchMovieById ::
  "(js_string \<Rightarrow> js_string) \<Rightarrow> TmdbItem api_answer \<Rightarrow> bool \<Rightarrow> MediaInfo fetch_result \<times> effect list"
where
  "fetchMovieById toLowerCase answer confirm =
     (case answer of
        ApiFailure \<Rightarrow> (ReturnNull, [])
      | ApiItem movie_fetched \<Rightarrow>
          if \<not> confirm then (Exit 0, [])
          else
            (let movie_info =
                   \<lparr>media_title = tmdb_title movie_fetched,
                    media_slug = slugify toLowerCase (tmdb_title movie_fetched),
                    media_release_date =
                      Some (case tmdb_date movie_fetched of None \<Rightarrow> [] | Some d \<Rightarrow> d),
                    media_genres =
                      Some (case tmdb_genres movie_fetched of None \<Rightarrow> [] | Some gs \<Rightarrow> gs),
                    media_summary =
                      Some (case tmdb_overview movie_fetched of
                              None \<Rightarrow> lit ''No summary available'' | Some d \<Rightarrow> d)\<rparr>;
                 cover_url = poster_url (tmdb_poster_path movie_fetched)
             in (Return movie_info, download_cover cover_url (media_slug movie_info))))"

text \<open>
  \<open>fetchSerieById\<close>; its \<open>media_type\<close> only chooses the directory of the cover.
\<close>

definition fetchSerieById ::
  "(js_string \<Rightarrow> js_string) \<Rightarrow> TmdbItem api_answer \<Rightarrow> int \<Rightarrow> bool \<Rightarrow>
   MediaInfo fetch_result \<times> effect list"
where
  "fetchSerieById toLowerCase answer media_type confirm =
     (case answer of
        ApiFailure \<Rightarrow> (ReturnNull, [])
      | ApiItem serie_fetched \<Rightarrow>
          if \<not> confirm then (Exit 0, [])
          else
            (let serie_info =
                   \<lparr>media_title = tmdb_title serie_fetched,
                    media_slug = slugify toLowerCase (tmdb_title serie_fetched),
                    media_release_date =
                      Some (case tmdb_date serie_fetched of None \<Rightarrow> [] | Some d \<Rightarrow> d),
                    media_genres =
                      Some (case tmdb_genres serie_fetched of None \<Rightarrow> [] | Some gs \<Rightarrow> gs),
                    media_summary =
                      Some (case tmdb_overview serie_fetched of
                              None \<Rightarrow> lit ''No summary available'' | Some d \<Rightarrow> d)\<rparr>;
                 cover_url = poster_url (tmdb_poster_path serie_fetched)
             in (Return serie_info, download_cover cover_url (media_slug serie_info))))"

definition generateMarkdown_media ::
  "(js_string \<Rightarrow> js_string) \<Rightarrow> MediaInfo \<Rightarrow> js_string \<Rightarrow> js_string"
where
  \<open>generateMarkdown_media toLowerCase media_info media =
     lit ''---\<newline>title: "'' @ media_title media_info @
     lit ''"\<newline>rating:\<newline>release_date: "'' @ template_opt (media_release_date media_info) @
     lit ''"\<newline>tags:\<newline>    - '' @ media @ lit ''\<newline>    '' @
     template_opt (map_option (tag_lines (slugify toLowerCase)) (media_genres media_info)) @
     lit ''\<newline>    - watchlist\<newline>cover: "[['' @ media_slug media_info @
     lit ''.jpg]]"\<newline>---\<newline>> [!NOTE] Summary\<newline>'' @
     template_opt (map_option quote_lines (media_summary media_info))\<close>

text \<open>
  \<open>main\<close> of the movie and series script, after the prompts for the id and for the media
  type (1 for a movie, 2 for a series, anything else counts as an anime).
\<close>

definition main_media ::
  "(js_string \<Rightarrow> js_string) \<Rightarrow> int \<Rightarrow> TmdbItem api_answer \<Rightarrow> bool \<Rightarrow> effect list"
where
  "main_media toLowerCase media_type answer confirm =
     (case (if media_type = 1 then fetchMovieById toLowerCase answer confirm
            else fetchSerieById toLowerCase answer media_type confirm) of
        (Return mediaInfo, effects) \<Rightarrow>
          effects @
          [CreateMarkdownFile
             (generateMarkdown_media toLowerCase mediaInfo
                (if media_type = 1 then lit ''movie''
                 else if media_type = 2 then lit ''serie'' else lit ''anime''))
             (media_slug mediaInfo @ lit ''.md'')]
      | (other, effects) \<Rightarrow> effects)"

subsection \<open>The manga script\<close>

text \<open>
  \<open>manga_year\<close> holds what \<open>attributes.year ?? ""\<close> gives: the number of the API, or
  \<open>None\<close> for the empty string.
\<close>

record MangaInfo =
  manga_title :: js_string
  manga_slug :: js_string
  manga_year :: "int option"
  manga_genres :: "js_string list option"
  manga_themes :: "js_string list option"
  manga_summary :: "js_string option"

text \<open>
  The fields of \<open>attributes\<close> that the script reads: \<open>title.en\<close>, \<open>year\<close>, the tags as
  their \<open>group\<close> and \<open>name.en\<close>, and \<open>description.en\<close>.
\<close>

record MangaAttributes =
  ma_title_en :: js_string
  ma_year :: "int option"
  ma_tags :: "(js_string \<times> js_string) list option"
  ma_description_en :: "js_string option"

text \<open>
  \<open>fetchCoverById\<close>: \<open>null\<close> when the request fails or lists no cover, else the URL of the
  first cover. The answer is the list of the \<open>fileName\<close>s.
\<close>

definition fetchCoverById :: "js_string \<Rightarrow> js_string list api_answer \<Rightarrow> js_string option" where
  "fetchCoverById mangaId covers_answer =
     (case covers_answer of
        ApiFailure \<Rightarrow> None
      | ApiItem [] \<Rightarrow> None
      | ApiItem (fileName # rest) \<Rightarrow>
          Some (lit ''https://uploads.mangadex.org/covers/'' @ mangaId @ lit ''/'' @ fileName))"

definition fetchMangaById ::
  "(js_string \<Rightarrow> js_string) \<Rightarrow> js_string \<Rightarrow> MangaAttributes api_answer \<Rightarrow>
   js_string list api_answer \<Rightarrow> bool \<Rightarrow> MangaInfo fetch_result \<times> effect list"
where
  "fetchMangaById toLowerCase mangaId answer covers_answer confirm =
     (case answer of
        ApiFailure \<Rightarrow> (ReturnNull, [])
      | ApiItem attributes \<Rightarrow>
          if \<not> confirm then (Exit 0, [])
          else
            (let manga_info =
                   \<lparr>manga_title = ma_title_en attributes,
                    manga_slug = slugify toLowerCase (ma_title_en attributes),
                    manga_year = ma_year attributes,
                    manga_genres =
                      Some (map snd (filter (\<lambda>tag. fst tag = lit ''genre'')
                              (case ma_tags attributes of None \<Rightarrow> [] | Some tags \<Rightarrow> tags))),
                    manga_themes =
                      Some (map snd (filter (\<lambda>tag. fst tag = lit ''theme'')
                              (case ma_tags attributes of None \<Rightarrow> [] | Some tags \<Rightarrow> tags))),
                    manga_summary =
                      Some (case ma_description_en attributes of
                              None \<Rightarrow> lit ''No summary available.'' | Some d \<Rightarrow> d)\<rparr>;
                 cover_url = fetchCoverById mangaId covers_answer
             in (Return manga_info, download_cover cover_url (manga_slug manga_info))))"

definition generateMarkdown_manga ::
  "(js_string \<Rightarrow> js_string) \<Rightarrow> MangaInfo \<Rightarrow> bool \<Rightarrow> js_string"
where
  \<open>generateMarkdown_manga toLowerCase manga_info isManga =
     lit ''---\<newline>title: "'' @ manga_title manga_info @
     lit ''"\<newline>rating:\<newline>year: "'' @
     (case manga_year manga_info of None \<Rightarrow> [] | Some y \<Rightarrow> num_to_string y) @
     lit ''"\<newline>tags:\<newline>    - '' @ (if isManga then lit ''manga'' else lit ''manhwa'') @
     lit ''\<newline>    '' @
     template_opt (map_option (tag_lines (slugify toLowerCase)) (manga_genres manga_info)) @
     lit ''\<newline>    '' @
     template_opt (map_option (tag_lines (slugify toLowerCase)) (manga_themes manga_info)) @
     lit ''\<newline>    - wishlist\<newline>cover: "[['' @ manga_slug manga_info @
     lit ''.jpg]]"\<newline>---\<newline>> [!NOTE] Summary\<newline>'' @
     template_opt (map_option quote_lines (manga_summary manga_info))\<close>

text \<open>\<open>main\<close> of the manga script, after the prompts for the id and for \<open>isManga\<close>.\<close>

definition main_manga ::
  "(js_string \<Rightarrow> js_string) \<Rightarrow> js_string \<Rightarrow> bool \<Rightarrow> MangaAttributes api_answer \<Rightarrow>
   js_string list api_answer \<Rightarrow> bool \<Rightarrow> effect list"
where
  "main_manga toLowerCase mangaId isManga answer covers_answer confirm =
     (case fetchMangaById toLowerCase mangaId answer covers_answer confirm of
        (Return mangaInfo, effects) \<Rightarrow>
          effects @
          [CreateMarkdownFile (generateMarkdown_manga toLowerCase mangaInfo isManga)
             (manga_slug mangaInfo @ lit ''.md'')]
      | (other, effects) \<Rightarrow> effects)"

subsection \<open>The game script\<close>

record GameInfo =
  game_title :: js_string
  game_slug :: js_string
  game_release_date :: "js_string option"
  game_genres :: "js_string list option"
  game_themes :: "js_string list option"
  game_summary :: "js_string option"

text \<open>
  The fields of the first game of the IGDB answer that the script reads; \<open>gf_cover\<close> is
  the \<open>cover\<close> object when there is one, holding its \<open>url\<close> when it has one, and
  \<open>gf_genres\<close> and \<open>gf_themes\<close> hold the slugs of the genres and themes.
\<close>

record GameFetched =
  gf_name :: js_string
  gf_slug :: js_string
  gf_first_release_date :: "int option"
  gf_cover :: "js_string option option"
  gf_genres :: "js_string list option"
  gf_themes :: "js_string list option"
  gf_summary :: "js_string option"

text \<open>
  The URL that \<open>fetchGameById\<close> downloads the cover from: \<open>t_thumb\<close> replaced by
  \<open>t_original\<close>, and \<open>https:\<close> put in front of a URL that starts with \<open>//\<close>.
\<close>

definition game_cover_url :: "js_string \<Rightarrow> js_string" where
  "game_cover_url url =
     (let replaced = replace_first (lit ''t_thumb'') (lit ''t_original'') url
      in if take 2 replaced = lit ''//'' then lit ''https:'' @ replaced else replaced)"

text \<open>
  \<open>fetchGameById\<close>. \<open>token_ok\<close> is the truthiness of what \<open>getToken\<close> returned.
  \<open>format_date\<close> stands for the formatting of the release date, which goes through the
  runtime's \<open>Date\<close> in the local time zone. Reading \<open>url\<close> of a missing \<open>cover\<close> throws,
  and the \<open>catch\<close> returns \<open>null\<close>.
\<close>

definition fetchGameById ::
  "(int option \<Rightarrow> js_string) \<Rightarrow> bool \<Rightarrow> GameFetched api_answer \<Rightarrow> bool \<Rightarrow>
   GameInfo fetch_result \<times> effect list"
where
  "fetchGameById format_date token_ok answer confirm =
     (if \<not> token_ok then (Exit 1, [])
      else case answer of
        ApiFailure \<Rightarrow> (ReturnNull, [])
      | ApiItem game_fetched \<Rightarrow>
          if \<not> confirm then (Exit 0, [])
          else
            (let date_formatted = format_date (gf_first_release_date game_fetched) in
             case gf_cover game_fetched of
               None \<Rightarrow> (ReturnNull, [])
             | Some url \<Rightarrow>
                 (let downloads =
                        (if truthy url then
                           (let cover_url = game_cover_url (template_opt url)
                            in [DownloadImage cover_url (gf_slug game_fetched @ lit ''.jpg'')])
                         else []);
                      game_info =
                        \<lparr>game_title = gf_name game_fetched,
                         game_slug = gf_slug game_fetched,
                         game_release_date = Some date_formatted,
                         game_genres =
                           Some (case gf_genres game_fetched of
                                   None \<Rightarrow> [lit ''unknown''] | Some gs \<Rightarrow> gs),
                         game_themes =
                           Some (case gf_themes game_fetched of
                                   None \<Rightarrow> [lit ''unknown''] | Some ts \<Rightarrow> ts),
                         game_summary =
                           Some (case gf_summary game_fetched of
                                   None \<Rightarrow> lit ''No summary available.'' | Some d \<Rightarrow> d)\<rparr>
                  in (Return game_info, downloads))))"

definition generateMarkdown_game :: "GameInfo \<Rightarrow> js_string" where
  \<open>generateMarkdown_game game_info =
     lit ''---\<newline>title: "'' @ game_title game_info @
     lit ''"\<newline>rating:\<newline>release_date: "'' @ template_opt (game_release_date game_info) @
     lit ''"\<newline>tags:\<newline>    - game\<newline>    '' @
     template_opt (map_option (tag_lines (\<lambda>genre. genre)) (game_genres game_info)) @
     lit ''\<newline>    '' @
     template_opt (map_option (tag_lines (\<lambda>theme. theme)) (game_themes game_info)) @
     lit ''\<newline>    - wishlist\<newline>cover: "[['' @ game_slug game_info @
     lit ''.jpg]]"\<newline>---\<newline>> [!NOTE] Summary\<newline>'' @
     template_opt (map_option quote_lines (game_summary game_info))\<close>

text \<open>\<open>main\<close> of the game script, after the prompt for the IGDB id.\<close>

definition main_game ::
  "(int option \<Rightarrow> js_string) \<Rightarrow> bool \<Rightarrow> GameFetched api_answer \<Rightarrow> bool \<Rightarrow> effect list"
where
  "main_game format_date token_ok answer confirm =
     (case fetchGameById format_date token_ok answer confirm of
        (Return gameInfo, effects) \<Rightarrow>
          effects @
          [CreateMarkdownFile (generateMarkdown_game gameInfo) (game_slug gameInfo @ lit ''.md'')]
      | (other, effects) \<Rightarrow> effects)"

subsection \<open>Consistency of a run\<close>

text \<open>The text of the cover field of a note that links the image \<open>filename\<close>.\<close>

definition cover_field :: "js_string \<Rightarrow> js_string" where
  \<open>cover_field filename = lit ''cover: "[['' @ filename @ lit '']]"''\<close>

text \<open>
  A run is consistent when every note it creates is named \<open><slug>.md\<close> for some slug,
  carries the cover field for \<open><slug>.jpg\<close> as the last line of its front matter, and
  every image the run downloads is named \<open><slug>.jpg\<close>.
\<close>

definition note_links_cover :: "effect list \<Rightarrow> bool" where
  \<open>note_links_cover effects =
     (\<forall>content md. CreateMarkdownFile content md \<in> set effects \<longrightarrow>
        (\<exists>slug pre post.
           md = slug @ lit ''.md'' \<and>
           content = pre @ lit ''\<newline>'' @ cover_field (slug @ lit ''.jpg'') @
             lit ''\<newline>---\<newline>> [!NOTE] Summary\<newline>'' @ post \<and>
           (\<forall>url img. DownloadImage url img \<in> set effects \<longrightarrow> img = slug @ lit ''.jpg'')))\<close>

text \<open>A URL that is truthy, that is, present and not empty.\<close>

definition if_truthy :: "js_string option \<Rightarrow> js_string option" where
  "if_truthy url = (if truthy url then url else None)"

text \<open>
  The run for a fetched item with the given slug: the cover is downloaded to
  \<open><slug>.jpg\<close> when there is a URL for it, and then the note is created as \<open><slug>.md\<close>,
  with the cover field for \<open><slug>.jpg\<close> as the last line of its front matter. Nothing
  else happens.
\<close>

definition fetched_run :: "js_string \<Rightarrow> js_string option \<Rightarrow> effect list \<Rightarrow> bool" where
  \<open>fetched_run slug cover effects =
     (\<exists>pre post.
        effects =
          (case cover of None \<Rightarrow> [] | Some url \<Rightarrow> [DownloadImage url (slug @ lit ''.jpg'')]) @
          [CreateMarkdownFile
             (pre @ lit ''\<newline>'' @ cover_field (slug @ lit ''.jpg'') @
              lit ''\<newline>---\<newline>> [!NOTE] Summary\<newline>'' @ post)
             (slug @ lit ''.md'')])\<close>

subsection \<open>Sample items\<close>

definition sample_volume :: VolumeInfo where
  "sample_volume =
     \<lparr>vi_title = lit ''Dune: Part One'',
      vi_publishedDate = Some (lit ''1965-08-01''),
      vi_categories = Some [lit ''Science Fiction''],
      vi_description = Some (lit ''Line one\<newline>Line two''),
      vi_imageLinks = Some \<lparr>extraLarge = None, large = None, medium = None,
        thumbnail = Some (lit ''http://books.example/dune''), smallThumbnail = None\<rparr>\<rparr>"

definition sample_game :: GameFetched where
  "sample_game =
     \<lparr>gf_name = lit ''Hades II'',
      gf_slug = lit ''hades-ii'',
      gf_first_release_date = Some 1714953600,
      gf_cover = Some (Some (lit ''//images.igdb.com/t_thumb/co1.jpg'')),
      gf_genres = Some [lit ''indie''],
      gf_themes = None,
      gf_summary = None\<rparr>"

definition sample_series :: Series where
  "sample_series =
     \<lparr>ls_title = lit ''Spice & Wolf'',
      ls_start_date = Some 20060210,
      ls_tags = Some [(lit ''genre'', lit ''Fantasy''), (lit ''tag'', lit ''Merchants''),
        (lit ''genre'', lit ''Romance'')],
      ls_book_description = Some (Some (lit ''A merchant meets a wolf.'')),
      ls_books = Some
        [\<lparr>sb_book_type = lit ''main'', sb_image = Some (lit ''b2.jpg''), sb_sort_order = 2\<rparr>,
         \<lparr>sb_book_type = lit ''main'', sb_image = Some (lit ''b1.jpg''), sb_sort_order = 1\<rparr>,
         \<lparr>sb_book_type = lit ''sub'', sb_image = Some (lit ''b0.jpg''), sb_sort_order = 0\<rparr>,
         \<lparr>sb_book_type = lit ''main'', sb_image = None, sb_sort_order = 0\<rparr>]\<rparr>"

definition sample_manga :: MangaAttributes where
  "sample_manga =
     \<lparr>ma_title_en = lit ''Solo Leveling'',
      ma_year = Some 2018,
      ma_tags = Some [(lit ''genre'', lit ''Action''), (lit ''theme'', lit ''Monsters'')],
      ma_description_en = None\<rparr>"

definition sample_show :: TmdbItem where
  "sample_show =
     \<lparr>tmdb_title = lit ''Cowboy Bebop'',
      tmdb_date = Some (lit ''1998-04-03''),
      tmdb_genres = Some [lit ''Animation'', lit ''Sci-Fi & Fantasy''],
      tmdb_overview = Some (lit ''Bounty hunters.''),
      tmdb_poster_path = Some (lit ''/p.jpg'')\<rparr>"

section \<open>Properties of the slug\<close>

















section \<open>Properties of the token cache\<close>

lemma key_access_token_neq_expires_at: "lit ''access_token'' \<noteq> lit ''expires_at''"
  by (simp add: lit_def)

lemma js_gt_JNum: "js_gt (JNum T) now = Inr (now < T)"
  by (simp add: js_gt_def double_gt_def)

lemma get_member_twice:
  "get_member v k = Inr x \<Longrightarrow> \<exists>y. get_member v k' = Inr y"
  by (cases v) simp_all

lemma fetchNewToken_world:
  "snd (fetchNewToken e w) = w\<lparr>http_posts := Suc (http_posts w)\<rparr>"
  by (simp add: fetchNewToken_def Let_def split: http_outcome.split)

lemma fetchNewToken_fails:
  "exchange_fails e \<Longrightarrow>
   fetchNewToken e w =
     (Inl (AxiosError (case exchange e of NetworkError \<Rightarrow> None | Response status body \<Rightarrow> Some status)),
      w\<lparr>http_posts := Suc (http_posts w)\<rparr>)"
  by (auto simp: fetchNewToken_def exchange_fails_def Let_def split: http_outcome.splits)

lemma fetchNewToken_ok:
  "exchange e = Response status body \<Longrightarrow> 200 \<le> status \<Longrightarrow> status < 300 \<Longrightarrow>
   fetchNewToken e w = (Inr body, w\<lparr>http_posts := Suc (http_posts w)\<rparr>)"
  by (simp add: fetchNewToken_def Let_def)

lemma refresh_token_posts: "http_posts (snd (refresh_token e w)) = Suc (http_posts w)"
proof (cases "fetchNewToken e w")
  case (Pair r w1)
  then have w1: "w1 = w\<lparr>http_posts := Suc (http_posts w)\<rparr>"
    using fetchNewToken_world [of e w] by simp
  show ?thesis
  proof (cases r)
    case (Inl err)
    with Pair w1 show ?thesis by (simp add: refresh_token_def)
  next
    case (Inr data)
    with Pair w1 show ?thesis
      by (auto simp: refresh_token_def save_token_def Let_def
          split: sum.splits prod.splits write_outcome.splits)
  qed
qed

lemma refresh_token_fails:
  "exchange_fails e \<Longrightarrow>
   refresh_token e w =
     (Inl (AxiosError (case exchange e of NetworkError \<Rightarrow> None | Response status body \<Rightarrow> Some status)),
      w\<lparr>http_posts := Suc (http_posts w)\<rparr>)"
  by (simp add: refresh_token_def fetchNewToken_fails)

lemma getToken_try_miss: "cache_miss e w \<Longrightarrow> getToken_try e w = refresh_token e w"
  by (simp add: getToken_try_def cache_miss_def)

lemma cache_miss_cases:
  "cache_miss e w =
     (token_file w = NoFile \<or>
      (\<exists>saved ex. token_file w = Json saved \<and> get_member saved (lit ''expires_at'') = Inr ex \<and>
         js_gt ex (seconds (ms_at_check e)) = Inr False))"
  by (cases "token_file w")
     (auto simp: cache_miss_def read_saved_def split: sum.splits bool.splits)

lemma read_saved_throws:
  "f = Unreadable \<or> f = Garbage \<or> f = Json JNull \<Longrightarrow> \<exists>err. read_saved ms f = Inl err"
  by (auto simp: read_saved_def)

lemma getToken_eq:
  "getToken e w = (case fst (getToken_try e w) of Inl err \<Rightarrow> Inr JNull | Inr v \<Rightarrow> Inr v, snd (getToken_try e w))"
  by (simp add: getToken_def split: prod.split sum.split)

lemma json_roundtrip_record:
  "json_roundtrip (token_record (JStr t) (JNum T)) = token_record (JStr t) (JNum T)"
  by (simp add: token_record_def)

lemma token_record_members:
  "get_member (token_record t x) (lit ''expires_at'') = Inr x"
  "get_member (token_record t x) (lit ''access_token'') = Inr t"
  using key_access_token_neq_expires_at by (simp_all add: token_record_def)

text \<open>
  Claim C1. When the token file holds a record whose \<open>expires_at\<close> is a number greater
  than the current time in seconds, \<open>getToken\<close> returns the record's \<open>access_token\<close> and
  leaves the world as it was: no request is sent and the file is not written.
\<close>

theorem cache_hit:
  assumes "token_file w = Json saved"
    and "get_member saved (lit ''expires_at'') = Inr (JNum T)"
    and "seconds (ms_at_check e) < T"
  shows "\<exists>t. get_member saved (lit ''access_token'') = Inr t \<and> getToken e w = (Inr t, w)"
proof -
  obtain t where t: "get_member saved (lit ''access_token'') = Inr t"
    using get_member_twice [OF assms(2)] by blast
  have "read_saved (ms_at_check e) (token_file w) = Inr (Some t)"
    using assms t by (simp add: read_saved_def js_gt_JNum)
  then have "getToken e w = (Inr t, w)"
    by (simp add: getToken_def getToken_try_def)
  with t show ?thesis by blast
qed

text \<open>
  Claim C2, amended. When there is no token file, or the \<open>expires_at\<close> of the saved value
  compares not greater than the current time, \<open>getToken\<close> sends exactly one request; when
  the exchange succeeds with a body \<open>{access_token, expires_in}\<close> and the write goes
  through, the file then holds \<open>{access_token, expires_at = now + expires_in}\<close> in place of
  what was there, and the new \<open>access_token\<close> is returned. When the file is there but
  cannot be read or parsed, or holds \<open>null\<close>, \<open>getToken\<close> returns \<open>null\<close> and sends no
  request.
\<close>

theorem cache_miss_refresh:
  "(token_file w = NoFile \<or>
      (\<exists>saved expires_at. token_file w = Json saved \<and>
         get_member saved (lit ''expires_at'') = Inr expires_at \<and>
         js_gt expires_at (seconds (ms_at_check e)) = Inr False) \<longrightarrow>
    http_posts (snd (getToken e w)) = http_posts w + 1 \<and>
    (\<forall>status body t n.
       exchange e = Response status body \<and> 200 \<le> status \<and> status < 300 \<and>
       get_member body (lit ''access_token'') = Inr (JStr t) \<and>
       get_member body (lit ''expires_in'') = Inr (JNum n) \<and>
       fs_write e = WriteOk \<longrightarrow>
       getToken e w =
         (Inr (JStr t),
          \<lparr>token_file = Json (token_record (JStr t) (JNum (seconds (ms_at_refresh e) + n))),
           http_posts = http_posts w + 1\<rparr>))) \<and>
   (token_file w = Unreadable \<or> token_file w = Garbage \<or> token_file w = Json JNull \<longrightarrow>
    getToken e w = (Inr JNull, w))"
proof (intro conjI impI)
  assume "token_file w = NoFile \<or>
      (\<exists>saved expires_at. token_file w = Json saved \<and>
         get_member saved (lit ''expires_at'') = Inr expires_at \<and>
         js_gt expires_at (seconds (ms_at_check e)) = Inr False)"
  then have "cache_miss e w"
    by (auto simp: cache_miss_cases)
  then have tr: "getToken_try e w = refresh_token e w"
    by (rule getToken_try_miss)
  show "http_posts (snd (getToken e w)) = http_posts w + 1"
    by (simp add: getToken_eq tr refresh_token_posts)
  have ok: "getToken e w =
         (Inr (JStr t),
          \<lparr>token_file = Json (token_record (JStr t) (JNum (seconds (ms_at_refresh e) + n))),
           http_posts = http_posts w + 1\<rparr>)"
    if "exchange e = Response status body" "200 \<le> status" "status < 300"
      "get_member body (lit ''access_token'') = Inr (JStr t)"
      "get_member body (lit ''expires_in'') = Inr (JNum n)"
      "fs_write e = WriteOk"
    for status body t n
  proof -
    have "refresh_token e w =
         (Inr (JStr t),
          w\<lparr>http_posts := Suc (http_posts w),
            token_file := Json (token_record (JStr t) (JNum (seconds (ms_at_refresh e) + n)))\<rparr>)"
      using that
      by (simp add: refresh_token_def fetchNewToken_ok save_token_def
          del: json_roundtrip.simps add: json_roundtrip_record)
    then show ?thesis
      by (simp add: getToken_def tr)
  qed
  then show "\<forall>status body t n.
       exchange e = Response status body \<and> 200 \<le> status \<and> status < 300 \<and>
       get_member body (lit ''access_token'') = Inr (JStr t) \<and>
       get_member body (lit ''expires_in'') = Inr (JNum n) \<and>
       fs_write e = WriteOk \<longrightarrow>
       getToken e w =
         (Inr (JStr t),
          \<lparr>token_file = Json (token_record (JStr t) (JNum (seconds (ms_at_refresh e) + n))),
           http_posts = http_posts w + 1\<rparr>)"
    by blast
next
  assume "token_file w = Unreadable \<or> token_file w = Garbage \<or> token_file w = Json JNull"
  then obtain err where "read_saved (ms_at_check e) (token_file w) = Inl err"
    using read_saved_throws by blast
  then show "getToken e w = (Inr JNull, w)"
    by (simp add: getToken_def getToken_try_def)
qed

lemma ex_simps:
  "token_file (world_with f) = f" "http_posts (world_with f) = 0"
  "ms_at_check (env_with r) = 1700000000123" "ms_at_refresh (env_with r) = 1700000000987"
  "exchange (env_with r) = r" "fs_write (env_with r) = WriteOk"
  "seconds 1700000000123 = 1700000000" "seconds 1700000000987 = 1700000000"
  by (simp_all add: world_with_def env_with_def seconds_def)

lemma key_access_token_neq_expires_in: "lit ''access_token'' \<noteq> lit ''expires_in''"
  by (simp add: lit_def)

lemma token_response_members:
  "get_member (token_response t n) (lit ''expires_in'') = Inr n"
  "get_member (token_response t n) (lit ''access_token'') = Inr t"
  using key_access_token_neq_expires_in by (simp_all add: token_response_def)

text \<open>
  The first example of the specification: the file holds \<open>tok1\<close> with
  \<open>expires_at = 9999999999\<close>.
\<close>

theorem cache_hit_witness:
  "getToken (env_with NetworkError) (world_with (Json (token_record tok1 (JNum 9999999999)))) =
     (Inr tok1, world_with (Json (token_record tok1 (JNum 9999999999))))"
  using cache_hit [of "world_with (Json (token_record tok1 (JNum 9999999999)))"
      "token_record tok1 (JNum 9999999999)" 9999999999 "env_with NetworkError"]
  by (simp add: ex_simps token_record_members)

text \<open>
  The second example of the specification: the file holds \<open>tok1\<close> with
  \<open>expires_at = 1\<close>, and the endpoint answers \<open>tok2\<close> with \<open>expires_in = 3600\<close>.
\<close>

theorem cache_miss_refresh_witness:
  "getToken (env_with (Response 200 (token_response tok2 (JNum 3600))))
       (world_with (Json (token_record tok1 (JNum 1)))) =
     (Inr tok2, \<lparr>token_file = Json (token_record tok2 (JNum 1700003600)), http_posts = 1\<rparr>) \<and>
   getToken (env_with (Response 200 (token_response tok2 (JNum 3600)))) (world_with Unreadable) =
     (Inr JNull, world_with Unreadable)"
  using cache_miss_refresh [of "world_with (Json (token_record tok1 (JNum 1)))"
      "env_with (Response 200 (token_response tok2 (JNum 3600)))"]
    cache_miss_refresh [of "world_with Unreadable"
      "env_with (Response 200 (token_response tok2 (JNum 3600)))"]
  by (simp add: ex_simps token_record_members token_response_members js_gt_JNum tok2_def)

text \<open>
  Claim C2 as stated fails: the token file is there but is not JSON, so no record is
  saved; \<open>JSON.parse\<close> throws, and \<open>getToken\<close> returns \<open>null\<close> without a request, although
  the endpoint would have answered.
\<close>

theorem unparsable_file_blocks_exchange:
  "getToken (env_with (Response 200 (token_response tok2 (JNum 3600)))) (world_with Garbage) =
     (Inr JNull, \<lparr>token_file = Garbage, http_posts = 0\<rparr>)"
  by (simp add: getToken_def getToken_try_def read_saved_def ex_simps world_with_def)

lemma getToken_fails_on_miss:
  assumes "cache_miss e w" and "exchange_fails e"
  shows "getToken e w = (Inr JNull, w\<lparr>http_posts := Suc (http_posts w)\<rparr>)"
  using assms by (simp add: getToken_def getToken_try_miss refresh_token_fails)

lemma getToken_try_hit_world:
  "read_saved (ms_at_check e) (token_file w) \<noteq> Inr None \<Longrightarrow> snd (getToken_try e w) = w"
  by (simp add: getToken_try_def split: sum.split option.split)

text \<open>
  Claim C3, amended. When the saved token is not usable and the exchange fails (no
  response, or a status outside 2xx), \<open>fetchNewToken\<close> throws the client's error with the
  status of the response, and \<open>getToken\<close> catches it and returns \<open>null\<close>: no error reaches
  the caller. Exactly one request was sent, and the file is unchanged.
\<close>

theorem failed_exchange_returns_null:
  assumes "cache_miss e w" and "exchange_fails e"
  shows "fst (fetchNewToken e w) =
      Inl (AxiosError (case exchange e of NetworkError \<Rightarrow> None
                                        | Response status body \<Rightarrow> Some status)) \<and>
    getToken e w = (Inr JNull, w\<lparr>http_posts := Suc (http_posts w)\<rparr>)"
  using assms by (simp add: fetchNewToken_fails getToken_fails_on_miss)

text \<open>
  No token file and no response from the endpoint.
\<close>

theorem failed_exchange_returns_null_witness:
  "cache_miss (env_with NetworkError) (world_with NoFile) \<and>
   exchange_fails (env_with NetworkError) \<and>
   fst (fetchNewToken (env_with NetworkError) (world_with NoFile)) = Inl (AxiosError None) \<and>
   getToken (env_with NetworkError) (world_with NoFile) =
     (Inr JNull, \<lparr>token_file = NoFile, http_posts = 1\<rparr>)"
proof -
  have m: "cache_miss (env_with NetworkError) (world_with NoFile)"
    by (simp add: cache_miss_def read_saved_def ex_simps)
  have f: "exchange_fails (env_with NetworkError)"
    by (simp add: exchange_fails_def ex_simps)
  from failed_exchange_returns_null [OF m f] m f show ?thesis
    by (simp add: ex_simps world_with_def)
qed

text \<open>
  Claim C3 as stated fails: with no token file and a response of status 500,
  \<open>fetchNewToken\<close> throws, but \<open>getToken\<close> returns \<open>null\<close> and raises nothing.
\<close>

theorem getToken_swallows_500:
  "exchange_fails (env_with (Response 500 (JStr (lit ''Internal Server Error'')))) \<and>
   fetchNewToken (env_with (Response 500 (JStr (lit ''Internal Server Error'')))) (world_with NoFile) =
     (Inl (AxiosError (Some 500)), \<lparr>token_file = NoFile, http_posts = 1\<rparr>) \<and>
   getToken (env_with (Response 500 (JStr (lit ''Internal Server Error'')))) (world_with NoFile) =
     (Inr JNull, \<lparr>token_file = NoFile, http_posts = 1\<rparr>)"
  by (simp add: exchange_fails_def getToken_def getToken_try_def read_saved_def
      refresh_token_def fetchNewToken_def ex_simps world_with_def)

text \<open>
  Claim C5, amended. When the exchange fails (no response, or a status outside 2xx, such
  as 401), the token file after \<open>getToken\<close> is what it was before, and \<open>getToken\<close> returns
  a value instead of raising: \<open>null\<close> when the saved token was not usable.
\<close>

theorem failed_exchange_keeps_file:
  assumes "exchange_fails e"
  shows "token_file (snd (getToken e w)) = token_file w \<and>
    (\<exists>v. fst (getToken e w) = Inr v) \<and>
    (cache_miss e w \<longrightarrow> getToken e w = (Inr JNull, w\<lparr>http_posts := Suc (http_posts w)\<rparr>))"
proof -
  have same: "token_file (snd (getToken e w)) = token_file w"
  proof (cases "cache_miss e w")
    case True
    then show ?thesis
      using assms by (simp add: getToken_fails_on_miss)
  next
    case False
    then have "snd (getToken_try e w) = w"
      by (simp add: getToken_try_hit_world cache_miss_def)
    then show ?thesis
      by (simp add: getToken_eq)
  qed
  have "\<exists>v. fst (getToken e w) = Inr v"
    by (simp add: getToken_eq split: sum.split)
  with same show ?thesis
    using assms by (simp add: getToken_fails_on_miss)
qed

text \<open>
  An expired record in the file and a response of status 403.
\<close>

theorem failed_exchange_keeps_file_witness:
  "exchange_fails (env_with (Response 403 JNull)) \<and>
   cache_miss (env_with (Response 403 JNull)) (world_with (Json (token_record tok1 (JNum 1)))) \<and>
   token_file (snd (getToken (env_with (Response 403 JNull))
      (world_with (Json (token_record tok1 (JNum 1)))))) = Json (token_record tok1 (JNum 1)) \<and>
   fst (getToken (env_with (Response 403 JNull))
      (world_with (Json (token_record tok1 (JNum 1))))) = Inr JNull"
proof -
  have f: "exchange_fails (env_with (Response 403 JNull))"
    by (simp add: exchange_fails_def ex_simps)
  have m: "cache_miss (env_with (Response 403 JNull)) (world_with (Json (token_record tok1 (JNum 1))))"
    by (simp add: cache_miss_def read_saved_def ex_simps token_record_members js_gt_JNum)
  from failed_exchange_keeps_file [OF f, of "world_with (Json (token_record tok1 (JNum 1)))"] m f
  show ?thesis
    by (simp add: ex_simps)
qed

text \<open>
  Claim C5 as stated fails: on a response of status 401, \<open>getToken\<close> does not raise the
  error; it returns \<open>null\<close>.
\<close>

theorem getToken_swallows_401:
  "exchange_fails (env_with (Response 401 (JObj [(lit ''status'', JNum 401)]))) \<and>
   getToken (env_with (Response 401 (JObj [(lit ''status'', JNum 401)]))) (world_with NoFile) =
     (Inr JNull, \<lparr>token_file = NoFile, http_posts = 1\<rparr>)"
  by (simp add: exchange_fails_def getToken_def getToken_try_def read_saved_def
      refresh_token_def fetchNewToken_def ex_simps world_with_def)

lemma read_saved_hit:
  "read_saved ms f = Inr (Some t) \<Longrightarrow>
   \<exists>saved ex. f = Json saved \<and> get_member saved (lit ''expires_at'') = Inr ex \<and>
     js_gt ex (seconds ms) = Inr True \<and> get_member saved (lit ''access_token'') = Inr t"
  by (cases f) (auto simp: read_saved_def split: sum.splits bool.splits)

lemma refresh_token_returns:
  assumes "refresh_token e w = (Inr t, w')"
  shows "\<exists>status body ein expires_at. exchange e = Response status body \<and>
      200 \<le> status \<and> status < 300 \<and>
      get_member body (lit ''expires_in'') = Inr ein \<and>
      js_add (seconds (ms_at_refresh e)) ein = Inr expires_at \<and>
      get_member body (lit ''access_token'') = Inr t \<and>
      w' = w\<lparr>http_posts := Suc (http_posts w),
              token_file := Json (json_roundtrip (token_record t expires_at))\<rparr>"
proof (cases "exchange e")
  case NetworkError
  with assms show ?thesis
    by (simp add: refresh_token_def fetchNewToken_def)
next
  case (Response status body)
  with assms show ?thesis
    by (auto simp: refresh_token_def fetchNewToken_def save_token_def Let_def
        split: if_splits sum.splits write_outcome.splits)
qed

lemma json_roundtrip_record_num:
  "json_roundtrip (token_record t (JNum T)) =
   JObj ((if t = JUndefined then [] else [(lit ''access_token'', json_roundtrip t)]) @
         [(lit ''expires_at'', JNum T)])"
  by (simp add: token_record_def)

lemma saved_record_expiry:
  "get_member (json_roundtrip (token_record t (JNum T))) (lit ''expires_at'') = Inr (JNum T)"
  using key_access_token_neq_expires_at by (simp add: json_roundtrip_record_num)

lemma read_saved_record_before_expiry:
  assumes "read_saved ms (Json (json_roundtrip (token_record t (JNum T)))) = Inr (Some u)"
  shows "seconds ms < T"
proof -
  from read_saved_hit [OF assms] obtain ex where
    "get_member (json_roundtrip (token_record t (JNum T))) (lit ''expires_at'') = Inr ex"
    "js_gt ex (seconds ms) = Inr True"
    by blast
  then show ?thesis
    by (auto simp: saved_record_expiry js_gt_JNum)
qed

text \<open>
  Claim C4, amended. Suppose \<open>getToken\<close> returns a token from its \<open>try\<close> block, and the
  endpoint answers with a positive number \<open>expires_in\<close>. Then either the token is the
  \<open>access_token\<close> of the saved record, whose \<open>expires_at\<close> compares greater than the
  time of the check, and nothing changed; or the file now holds the returned token with
  \<open>expires_at = now + expires_in\<close>, which is greater than the time of the refresh, and a
  read of that file uses the token only at a time before \<open>now + expires_in\<close>.
\<close>

theorem returned_token_not_expired:
  assumes "getToken_try e w = (Inr t, w')"
    and "\<forall>status body. exchange e = Response status body \<longrightarrow>
           (\<exists>n. 0 < n \<and> get_member body (lit ''expires_in'') = Inr (JNum n))"
  shows "(w' = w \<and>
       (\<exists>saved ex. token_file w = Json saved \<and>
          get_member saved (lit ''expires_at'') = Inr ex \<and>
          js_gt ex (seconds (ms_at_check e)) = Inr True \<and>
          get_member saved (lit ''access_token'') = Inr t)) \<or>
     (\<exists>status body n. exchange e = Response status body \<and>
          get_member body (lit ''expires_in'') = Inr (JNum n) \<and> 0 < n \<and>
          get_member body (lit ''access_token'') = Inr t \<and>
          token_file w' =
            Json (json_roundtrip (token_record t (JNum (seconds (ms_at_refresh e) + n)))) \<and>
          seconds (ms_at_refresh e) < seconds (ms_at_refresh e) + n \<and>
          (\<forall>ms u. read_saved ms (token_file w') = Inr (Some u) \<longrightarrow>
             seconds ms < seconds (ms_at_refresh e) + n))"
proof (cases "read_saved (ms_at_check e) (token_file w)")
  case (Inl err)
  with assms(1) show ?thesis
    by (simp add: getToken_try_def)
next
  case (Inr r)
  show ?thesis
  proof (cases r)
    case (Some u)
    with Inr assms(1) have "u = t" "w' = w"
      by (simp_all add: getToken_try_def)
    with Inr Some read_saved_hit [of "ms_at_check e" "token_file w" t] show ?thesis
      by blast
  next
    case None
    with Inr assms(1) have "refresh_token e w = (Inr t, w')"
      by (simp add: getToken_try_def)
    from refresh_token_returns [OF this] obtain status body ein expires_at where
      ex: "exchange e = Response status body"
      and ein: "get_member body (lit ''expires_in'') = Inr ein"
      and add: "js_add (seconds (ms_at_refresh e)) ein = Inr expires_at"
      and tok: "get_member body (lit ''access_token'') = Inr t"
      and w': "w' = w\<lparr>http_posts := Suc (http_posts w),
              token_file := Json (json_roundtrip (token_record t expires_at))\<rparr>"
      by blast
    from assms(2) ex ein obtain n where n: "0 < n" "ein = JNum n"
      by fastforce
    have saved: "token_file w' =
        Json (json_roundtrip (token_record t (JNum (seconds (ms_at_refresh e) + n))))"
      using w' n add by auto
    have later: "\<forall>ms u. read_saved ms (token_file w') = Inr (Some u) \<longrightarrow>
        seconds ms < seconds (ms_at_refresh e) + n"
      unfolding saved using read_saved_record_before_expiry by blast
    have "seconds (ms_at_refresh e) < seconds (ms_at_refresh e) + n"
      using n by simp
    with ex ein n tok saved later show ?thesis
      by blast
  qed
qed

text \<open>
  A refresh with \<open>expires_in = 3600\<close>, and two later reads of the file it
  wrote: one second before the expiry, and at the expiry.
\<close>

theorem returned_token_not_expired_witness:
  "getToken_try (env_with (Response 200 (token_response tok2 (JNum 3600)))) (world_with NoFile) =
     (Inr tok2, \<lparr>token_file = Json (token_record tok2 (JNum 1700003600)), http_posts = 1\<rparr>) \<and>
   seconds (ms_at_refresh (env_with (Response 200 (token_response tok2 (JNum 3600))))) < 1700003600 \<and>
   read_saved 1700003599999 (Json (token_record tok2 (JNum 1700003600))) = Inr (Some tok2) \<and>
   read_saved 1700003600000 (Json (token_record tok2 (JNum 1700003600))) = Inr None"
proof -
  let ?e = "env_with (Response 200 (token_response tok2 (JNum 3600)))"
  let ?w' = "\<lparr>token_file = Json (token_record tok2 (JNum 1700003600)), http_posts = 1\<rparr>"
  have run: "getToken_try ?e (world_with NoFile) = (Inr tok2, ?w')"
    by (simp add: getToken_try_def read_saved_def refresh_token_def fetchNewToken_def
        save_token_def ex_simps token_response_members world_with_def tok2_def
        json_roundtrip_record)
  have pos: "\<forall>status body. exchange ?e = Response status body \<longrightarrow>
      (\<exists>n. 0 < n \<and> get_member body (lit ''expires_in'') = Inr (JNum n))"
    by (simp add: ex_simps token_response_members)
  have r1: "read_saved 1700003599999 (Json (token_record tok2 (JNum 1700003600))) = Inr (Some tok2)"
    by (simp add: read_saved_def token_record_members js_gt_JNum seconds_def)
  have r2: "read_saved 1700003600000 (Json (token_record tok2 (JNum 1700003600))) = Inr None"
    by (simp add: read_saved_def token_record_members js_gt_JNum seconds_def)
  from returned_token_not_expired [OF run pos] run r1 r2 show ?thesis
    by (simp add: ex_simps)
qed

lemma concatenated_expiry: "js_add 1700000000 (JStr (lit ''3600'')) = Inr (JStr (lit ''17000000003600''))"
  by code_simp

lemma concatenated_expiry_valid: "js_gt (JStr (lit ''17000000003600'')) 1700003601 = Inr True"
  by code_simp

text \<open>
  Claim C4 as stated fails. When the endpoint answers \<open>expires_in = 0\<close>, the token is
  returned and saved with an \<open>expires_at\<close> that is not greater than the current time.
  When it answers \<open>expires_in = "3600"\<close>, a string, \<open>now + expires_in\<close> is the text
  \<open>17000000003600\<close>, and a read 3601 seconds later, when the token has expired, still
  takes it as valid.
\<close>

theorem expired_token_returned_or_kept:
  "getToken (env_with (Response 200 (token_response tok2 (JNum 0)))) (world_with NoFile) =
     (Inr tok2, \<lparr>token_file = Json (token_record tok2 (JNum 1700000000)), http_posts = 1\<rparr>) \<and>
   seconds (ms_at_refresh (env_with (Response 200 (token_response tok2 (JNum 0))))) = 1700000000 \<and>
   js_gt (JNum 1700000000)
       (seconds (ms_at_refresh (env_with (Response 200 (token_response tok2 (JNum 0)))))) =
     Inr False \<and>
   getToken (env_with (Response 200 (token_response tok2 (JStr (lit ''3600''))))) (world_with NoFile) =
     (Inr tok2,
      \<lparr>token_file = Json (token_record tok2 (JStr (lit ''17000000003600''))), http_posts = 1\<rparr>) \<and>
   read_saved 1700003601000 (Json (token_record tok2 (JStr (lit ''17000000003600'')))) =
     Inr (Some tok2)"
proof -
  have zero: "getToken (env_with (Response 200 (token_response tok2 (JNum 0)))) (world_with NoFile) =
     (Inr tok2, \<lparr>token_file = Json (token_record tok2 (JNum 1700000000)), http_posts = 1\<rparr>)"
    by (simp add: getToken_def getToken_try_def read_saved_def refresh_token_def
        fetchNewToken_def save_token_def ex_simps token_response_members world_with_def tok2_def
        json_roundtrip_record)
  have keep: "json_roundtrip (token_record tok2 (JStr (lit ''17000000003600''))) =
      token_record tok2 (JStr (lit ''17000000003600''))"
    by (simp add: token_record_def tok2_def)
  have concat_run: "getToken (env_with (Response 200 (token_response tok2 (JStr (lit ''3600'')))))
       (world_with NoFile) =
     (Inr tok2,
      \<lparr>token_file = Json (token_record tok2 (JStr (lit ''17000000003600''))), http_posts = 1\<rparr>)"
    using concatenated_expiry
    by (simp add: getToken_def getToken_try_def read_saved_def refresh_token_def
        fetchNewToken_def save_token_def ex_simps token_response_members world_with_def keep
        del: js_add.simps json_roundtrip.simps)
  have late: "read_saved 1700003601000 (Json (token_record tok2 (JStr (lit ''17000000003600'')))) =
     Inr (Some tok2)"
    using concatenated_expiry_valid
    by (simp add: read_saved_def token_record_members seconds_def)
  from zero concat_run late show ?thesis
    by (simp add: ex_simps js_gt_JNum)
qed

text \<open>
  Claim C6, amended. A saved record whose \<open>expires_at\<close> is missing, or has a value that
  JavaScript converts to \<open>NaN\<close> or to a number not greater than the current time, is
  treated as expired: \<open>getToken\<close> goes on to the exchange exactly as when there is no
  usable token, and sends one request. A value that converts to a number greater than the
  current time, be it a number or not, makes \<open>getToken\<close> return the saved
  \<open>access_token\<close> without a request.
\<close>

theorem unusable_expiry_is_expired:
  assumes "token_file w = Json (JObj kvs)"
  shows "(map_of kvs (lit ''expires_at'') = None \<or>
       (\<exists>v d. map_of kvs (lit ''expires_at'') = Some v \<and> to_number v = Inr d \<and>
          \<not> double_gt d (seconds (ms_at_check e))) \<longrightarrow>
     cache_miss e w \<and> getToken_try e w = refresh_token e w \<and>
     http_posts (snd (getToken e w)) = Suc (http_posts w)) \<and>
    (\<forall>v d. map_of kvs (lit ''expires_at'') = Some v \<and> to_number v = Inr d \<and>
        double_gt d (seconds (ms_at_check e)) \<longrightarrow>
      getToken e w =
        (Inr (case map_of kvs (lit ''access_token'') of None \<Rightarrow> JUndefined | Some t \<Rightarrow> t), w))"
proof (intro conjI impI allI)
  assume "map_of kvs (lit ''expires_at'') = None \<or>
       (\<exists>v d. map_of kvs (lit ''expires_at'') = Some v \<and> to_number v = Inr d \<and>
          \<not> double_gt d (seconds (ms_at_check e)))"
  then have "read_saved (ms_at_check e) (token_file w) = Inr None"
    using assms by (auto simp: read_saved_def js_gt_def double_gt_def)
  then have miss: "cache_miss e w"
    by (simp add: cache_miss_def)
  then have tr: "getToken_try e w = refresh_token e w"
    by (rule getToken_try_miss)
  then have "http_posts (snd (getToken e w)) = Suc (http_posts w)"
    by (simp add: getToken_eq refresh_token_posts)
  with miss tr show "cache_miss e w" "getToken_try e w = refresh_token e w"
    "http_posts (snd (getToken e w)) = Suc (http_posts w)"
    by simp_all
next
  fix v d
  assume "map_of kvs (lit ''expires_at'') = Some v \<and> to_number v = Inr d \<and>
        double_gt d (seconds (ms_at_check e))"
  then have "read_saved (ms_at_check e) (token_file w) =
      Inr (Some (case map_of kvs (lit ''access_token'') of None \<Rightarrow> JUndefined | Some t \<Rightarrow> t))"
    using assms by (simp add: read_saved_def js_gt_def)
  then show "getToken e w =
        (Inr (case map_of kvs (lit ''access_token'') of None \<Rightarrow> JUndefined | Some t \<Rightarrow> t), w)"
    by (simp add: getToken_def getToken_try_def)
qed

lemma to_number_soon: "to_number (JStr (lit ''soon'')) = Inr DNaN"
  by code_simp

lemma to_number_numeric_string:
  "to_number (JStr (lit ''9999999999'')) = Inr (DFin (9999999999 * 2 ^ 19) (- 19))"
  by code_simp

text \<open>
  A record whose \<open>expires_at\<close> is the string \<open>soon\<close>, and one whose \<open>expires_at\<close> is the
  string \<open>9999999999\<close>.
\<close>

theorem unusable_expiry_is_expired_witness:
  "to_number (JStr (lit ''soon'')) = Inr DNaN \<and>
   getToken (env_with (Response 200 (token_response tok2 (JNum 3600))))
       (world_with (Json (token_record tok1 (JStr (lit ''soon''))))) =
     (Inr tok2, \<lparr>token_file = Json (token_record tok2 (JNum 1700003600)), http_posts = 1\<rparr>) \<and>
   getToken (env_with NetworkError)
       (world_with (Json (token_record tok1 (JStr (lit ''9999999999''))))) =
     (Inr tok1, world_with (Json (token_record tok1 (JStr (lit ''9999999999'')))))"
proof -
  let ?e = "env_with (Response 200 (token_response tok2 (JNum 3600)))"
  let ?w = "world_with (Json (token_record tok1 (JStr (lit ''soon''))))"
  let ?v = "world_with (Json (token_record tok1 (JStr (lit ''9999999999''))))"
  have f: "token_file ?w =
      Json (JObj [(lit ''access_token'', tok1), (lit ''expires_at'', JStr (lit ''soon''))])"
    by (simp add: ex_simps token_record_def)
  have g: "token_file ?v =
      Json (JObj [(lit ''access_token'', tok1), (lit ''expires_at'', JStr (lit ''9999999999''))])"
    by (simp add: ex_simps token_record_def)
  have r: "refresh_token ?e ?w =
      (Inr tok2, \<lparr>token_file = Json (token_record tok2 (JNum 1700003600)), http_posts = 1\<rparr>)"
    by (simp add: refresh_token_def fetchNewToken_def save_token_def ex_simps
        token_response_members world_with_def tok2_def json_roundtrip_record)
  have gt: "double_gt (DFin (9999999999 * 2 ^ 19) (- 19)) 1700000000"
    by (simp add: double_gt_def)
  from unusable_expiry_is_expired [OF f, of ?e] to_number_soon r
  have a: "getToken ?e ?w =
      (Inr tok2, \<lparr>token_file = Json (token_record tok2 (JNum 1700003600)), http_posts = 1\<rparr>)"
    using key_access_token_neq_expires_at by (simp add: getToken_def double_gt_def)
  from unusable_expiry_is_expired [OF g, of "env_with NetworkError"] to_number_numeric_string gt
  have b: "getToken (env_with NetworkError) ?v = (Inr tok1, ?v)"
    using key_access_token_neq_expires_at by (simp add: ex_simps)
  from a b to_number_soon show ?thesis
    by simp
qed

lemma js_gt_numeric_string: "js_gt (JStr (lit ''9999999999'')) 1700000000 = Inr True"
  by code_simp

text \<open>
  Claim C6 as stated fails: a record whose \<open>expires_at\<close> is not a number but the string
  \<open>9999999999\<close> is not treated as expired. The comparison converts the string to a number,
  and the saved token is returned without an exchange.
\<close>

theorem numeric_string_expiry_is_valid:
  "get_member (token_record tok1 (JStr (lit ''9999999999''))) (lit ''expires_at'') =
     Inr (JStr (lit ''9999999999'')) \<and>
   getToken (env_with (Response 200 (token_response tok2 (JNum 3600))))
       (world_with (Json (token_record tok1 (JStr (lit ''9999999999''))))) =
     (Inr tok1, world_with (Json (token_record tok1 (JStr (lit ''9999999999'')))))"
  using js_gt_numeric_string
  by (simp add: getToken_def getToken_try_def read_saved_def ex_simps token_record_members)

text \<open>
  Claim C7. After \<open>{access_token: t, expires_at: T}\<close> was written to the token file, for a
  string \<open>t\<close> and a number \<open>T\<close>, the test of the saved token returns \<open>t\<close> when \<open>T\<close> is
  greater than the current time in seconds, and falls through to the exchange otherwise.
\<close>

theorem save_then_read:
  assumes "fs_write e = WriteOk"
  shows "read_saved ms (token_file (snd (save_token e (JStr t) (JNum T) w))) =
    (if seconds ms < T then Inr (Some (JStr t)) else Inr None)"
  using assms
  by (simp add: save_token_def json_roundtrip_record read_saved_def token_record_members
      js_gt_JNum del: json_roundtrip.simps)

text \<open>
  Writing \<open>abc\<close> with an expiry one second ahead, and with an expiry equal to the
  current second.
\<close>

theorem save_then_read_witness:
  "read_saved 1700000000123
     (token_file (snd (save_token (env_with NetworkError) (JStr (lit ''abc'')) (JNum 1700000001)
        (world_with NoFile)))) = Inr (Some (JStr (lit ''abc''))) \<and>
   read_saved 1700000000123
     (token_file (snd (save_token (env_with NetworkError) (JStr (lit ''abc'')) (JNum 1700000000)
        (world_with NoFile)))) = Inr None"
proof -
  have ok: "fs_write (env_with NetworkError) = WriteOk"
    by (simp add: ex_simps)
  show ?thesis
    using save_then_read [OF ok, of 1700000000123 "lit ''abc''" 1700000001 "world_with NoFile"]
      save_then_read [OF ok, of 1700000000123 "lit ''abc''" 1700000000 "world_with NoFile"]
    by (simp add: ex_simps)
qed

lemma getToken_try_returns:
  assumes "getToken_try e w = (Inr v, w')"
  shows "(\<exists>saved. token_file w = Json saved \<and> get_member saved (lit ''access_token'') = Inr v) \<or>
    (\<exists>status body. exchange e = Response status body \<and>
       get_member body (lit ''access_token'') = Inr v)"
proof (cases "read_saved (ms_at_check e) (token_file w)")
  case (Inl err)
  with assms show ?thesis
    by (simp add: getToken_try_def)
next
  case (Inr r)
  show ?thesis
  proof (cases r)
    case (Some u)
    with Inr assms have "read_saved (ms_at_check e) (token_file w) = Inr (Some v)"
      by (simp add: getToken_try_def)
    from read_saved_hit [OF this] show ?thesis
      by blast
  next
    case None
    with Inr assms have "refresh_token e w = (Inr v, w')"
      by (simp add: getToken_try_def)
    from refresh_token_returns [OF this] show ?thesis
      by blast
  qed
qed

text \<open>
  Claim C8, amended. \<open>getToken\<close> never raises: whatever is thrown in its \<open>try\<close> block is
  turned into the result \<open>null\<close>, and a value returned by the block is passed on as it
  is. That value is the \<open>access_token\<close> property of the saved record or of the response
  body, whatever it holds.
\<close>

theorem getToken_never_throws:
  "(\<exists>v. fst (getToken e w) = Inr v) \<and>
   (\<forall>err w'. getToken_try e w = (Inl err, w') \<longrightarrow> getToken e w = (Inr JNull, w')) \<and>
   (\<forall>v w'. getToken_try e w = (Inr v, w') \<longrightarrow>
      getToken e w = (Inr v, w') \<and>
      ((\<exists>saved. token_file w = Json saved \<and> get_member saved (lit ''access_token'') = Inr v) \<or>
       (\<exists>status body. exchange e = Response status body \<and>
          get_member body (lit ''access_token'') = Inr v)))"
proof -
  have "\<exists>v. fst (getToken e w) = Inr v"
    by (simp add: getToken_eq split: sum.split)
  moreover have "\<forall>err w'. getToken_try e w = (Inl err, w') \<longrightarrow> getToken e w = (Inr JNull, w')"
    by (simp add: getToken_def)
  moreover have "\<forall>v w'. getToken_try e w = (Inr v, w') \<longrightarrow> getToken e w = (Inr v, w')"
    by (simp add: getToken_def)
  ultimately show ?thesis
    using getToken_try_returns by blast
qed

text \<open>
  An unparsable file, an unreadable file, and a file holding \<open>null\<close>.
\<close>

theorem getToken_never_throws_witness:
  "getToken_try (env_with NetworkError) (world_with Garbage) = (Inl SyntaxError, world_with Garbage) \<and>
   getToken (env_with NetworkError) (world_with Garbage) = (Inr JNull, world_with Garbage) \<and>
   getToken_try (env_with NetworkError) (world_with Unreadable) =
     (Inl SystemError, world_with Unreadable) \<and>
   getToken (env_with NetworkError) (world_with Unreadable) = (Inr JNull, world_with Unreadable) \<and>
   getToken_try (env_with NetworkError) (world_with (Json JNull)) =
     (Inl TypeError, world_with (Json JNull)) \<and>
   getToken (env_with NetworkError) (world_with (Json JNull)) = (Inr JNull, world_with (Json JNull))"
proof -
  have a: "getToken_try (env_with NetworkError) (world_with Garbage) =
      (Inl SyntaxError, world_with Garbage)"
    by (simp add: getToken_try_def read_saved_def ex_simps)
  have b: "getToken_try (env_with NetworkError) (world_with Unreadable) =
      (Inl SystemError, world_with Unreadable)"
    by (simp add: getToken_try_def read_saved_def ex_simps)
  have c: "getToken_try (env_with NetworkError) (world_with (Json JNull)) =
      (Inl TypeError, world_with (Json JNull))"
    by (simp add: getToken_try_def read_saved_def ex_simps)
  show ?thesis
    using a b c
      getToken_never_throws [of "env_with NetworkError" "world_with Garbage"]
      getToken_never_throws [of "env_with NetworkError" "world_with Unreadable"]
      getToken_never_throws [of "env_with NetworkError" "world_with (Json JNull)"]
    by simp
qed

text \<open>
  Claim C8 as stated fails: for a record with a valid expiry and no \<open>access_token\<close>,
  \<open>getToken\<close> returns \<open>undefined\<close>, which is neither a string nor \<open>null\<close>.
\<close>

theorem getToken_returns_undefined:
  "getToken (env_with NetworkError) (world_with (Json (JObj [(lit ''expires_at'', JNum 9999999999)]))) =
     (Inr JUndefined, world_with (Json (JObj [(lit ''expires_at'', JNum 9999999999)])))"
  by (simp add: getToken_def getToken_try_def read_saved_def ex_simps js_gt_JNum
      key_access_token_neq_expires_at)

text \<open>
  A 2xx answer whose body lacks both fields is not noticed: \<open>now + undefined\<close> is \<open>NaN\<close>,
  the file is written with \<open>expires_at: null\<close> and no \<open>access_token\<close>, and \<open>getToken\<close>
  returns \<open>undefined\<close>.
\<close>

lemma malformed_body_is_saved:
  "getToken (env_with (Response 200 (JObj []))) (world_with NoFile) =
     (Inr JUndefined,
      \<lparr>token_file = Json (JObj [(lit ''expires_at'', JNull)]), http_posts = 1\<rparr>)"
  by (simp add: getToken_def getToken_try_def read_saved_def refresh_token_def fetchNewToken_def
      save_token_def token_record_def ex_simps world_with_def)

section \<open>Properties of the notes\<close>

lemma download_cover_effects:
  "e \<in> set (download_cover cover_url slug) \<Longrightarrow>
   e = DownloadImage (template_opt cover_url) (slug @ lit ''.jpg'')"
  by (simp add: download_cover_def split: if_splits)

lemma note_links_cover_append:
  assumes \<open>\<forall>content md. CreateMarkdownFile content md \<notin> set effects\<close>
    and \<open>\<forall>url img. DownloadImage url img \<in> set effects \<longrightarrow> img = slug @ lit ''.jpg''\<close>
    and \<open>\<exists>pre post. note =
       pre @ lit ''\<newline>'' @ cover_field (slug @ lit ''.jpg'') @
         lit ''\<newline>---\<newline>> [!NOTE] Summary\<newline>'' @ post\<close>
  shows \<open>note_links_cover (effects @ [CreateMarkdownFile note (slug @ lit ''.md'')])\<close>
  unfolding note_links_cover_def
proof (intro allI impI)
  fix content md
  assume \<open>CreateMarkdownFile content md \<in> set (effects @ [CreateMarkdownFile note (slug @ lit ''.md'')])\<close>
  with assms(1) have eq: \<open>content = note\<close> \<open>md = slug @ lit ''.md''\<close>
    by auto
  from assms(3) obtain pre post where shape: \<open>note =
       pre @ lit ''\<newline>'' @ cover_field (slug @ lit ''.jpg'') @
         lit ''\<newline>---\<newline>> [!NOTE] Summary\<newline>'' @ post\<close>
    by blast
  have dl: \<open>\<forall>url img. DownloadImage url img \<in> set (effects @ [CreateMarkdownFile note (slug @ lit ''.md'')])
      \<longrightarrow> img = slug @ lit ''.jpg''\<close>
    using assms(2) by simp
  show \<open>\<exists>slug' pre post.
       md = slug' @ lit ''.md'' \<and>
       content = pre @ lit ''\<newline>'' @ cover_field (slug' @ lit ''.jpg'') @
         lit ''\<newline>---\<newline>> [!NOTE] Summary\<newline>'' @ post \<and>
       (\<forall>url img. DownloadImage url img \<in> set (effects @ [CreateMarkdownFile note (slug @ lit ''.md'')])
          \<longrightarrow> img = slug' @ lit ''.jpg'')\<close>
    using eq shape dl by blast
qed

lemma note_links_cover_no_note:
  \<open>\<forall>content md. CreateMarkdownFile content md \<notin> set effects \<Longrightarrow> note_links_cover effects\<close>
  by (simp add: note_links_cover_def)

lemma generateMarkdown_book_shape:
  \<open>generateMarkdown_book lc info =
     (lit ''---\<newline>title: "'' @ book_title info @
      lit ''"\<newline>rating:\<newline>year: "'' @ template_opt (book_year info) @
      lit ''"\<newline>tags:\<newline>    - book\<newline>    '' @
      template_opt (map_option (tag_lines (slugify lc)) (book_categories info)) @
      lit ''\<newline>    - wishlist'') @
     lit ''\<newline>'' @ cover_field (book_slug info @ lit ''.jpg'') @
     lit ''\<newline>---\<newline>> [!NOTE] Summary\<newline>'' @
     template_opt (map_option quote_lines (book_summary info))\<close>
  by (simp add: generateMarkdown_book_def cover_field_def lit_def)

lemma generateMarkdown_book_cover:
  \<open>\<exists>pre post. generateMarkdown_book lc info =
     pre @ lit ''\<newline>'' @ cover_field (book_slug info @ lit ''.jpg'') @
       lit ''\<newline>---\<newline>> [!NOTE] Summary\<newline>'' @ post\<close>
  by (rule exI, rule exI, rule generateMarkdown_book_shape)

lemma fetchBookByIsbn_effects:
  assumes "fetchBookByIsbn lc answer confirm = (r, effects)"
  shows "(\<forall>content md. CreateMarkdownFile content md \<notin> set effects) \<and>
    (\<forall>info url img. r = Return info \<and> DownloadImage url img \<in> set effects \<longrightarrow>
       img = book_slug info @ lit ''.jpg'')"
  using assms
  by (auto simp: fetchBookByIsbn_def Let_def dest: download_cover_effects
      split: api_answer.splits if_splits option.splits)

lemma note_links_cover_book: "note_links_cover (main_book lc answer confirm)"
proof (cases "fetchBookByIsbn lc answer confirm")
  case (Pair r effects)
  note fx = fetchBookByIsbn_effects [OF Pair]
  show ?thesis
  proof (cases r)
    case (Return info)
    have run: "main_book lc answer confirm =
        effects @ [CreateMarkdownFile (generateMarkdown_book lc info) (book_slug info @ lit ''.md'')]"
      using Pair Return by (simp add: main_book_def)
    show ?thesis
      unfolding run
      using fx Return generateMarkdown_book_cover by (intro note_links_cover_append) auto
  next
    case (Exit n)
    with Pair fx show ?thesis
      by (simp add: main_book_def note_links_cover_no_note)
  next
    case ReturnNull
    with Pair fx show ?thesis
      by (simp add: main_book_def note_links_cover_no_note)
  qed
qed

lemma generateMarkdown_ln_shape:
  \<open>generateMarkdown_ln lc info =
     (lit ''---\<newline>title: "'' @ ln_title info @
      lit ''"\<newline>rating:\<newline>year: "'' @ template_opt (ln_year info) @
      lit ''"\<newline>tags:\<newline>    - lightnovel\<newline>    '' @
      template_opt (map_option (tag_lines (slugify lc)) (ln_genres info)) @
      lit ''\<newline>    '' @
      template_opt (map_option (tag_lines (slugify lc)) (ln_themes info)) @
      lit ''\<newline>    - wishlist'') @
     lit ''\<newline>'' @ cover_field (ln_slug info @ lit ''.jpg'') @
     lit ''\<newline>---\<newline>> [!NOTE] Summary\<newline>'' @
     template_opt (map_option quote_lines (ln_summary info))\<close>
  by (simp add: generateMarkdown_ln_def cover_field_def lit_def)

lemma generateMarkdown_ln_cover:
  \<open>\<exists>pre post. generateMarkdown_ln lc info =
     pre @ lit ''\<newline>'' @ cover_field (ln_slug info @ lit ''.jpg'') @
       lit ''\<newline>---\<newline>> [!NOTE] Summary\<newline>'' @ post\<close>
  by (rule exI, rule exI, rule generateMarkdown_ln_shape)

lemma fetchLightNovelById_effects:
  assumes "fetchLightNovelById lc answer confirm = (r, effects)"
  shows "(\<forall>content md. CreateMarkdownFile content md \<notin> set effects) \<and>
    (\<forall>info url img. r = Return info \<and> DownloadImage url img \<in> set effects \<longrightarrow>
       img = ln_slug info @ lit ''.jpg'')"
  using assms
  by (auto simp: fetchLightNovelById_def Let_def dest: download_cover_effects
      split: api_answer.splits if_splits option.splits)

lemma note_links_cover_ln: "note_links_cover (main_ln lc answer confirm)"
proof (cases "fetchLightNovelById lc answer confirm")
  case (Pair r effects)
  note fx = fetchLightNovelById_effects [OF Pair]
  show ?thesis
  proof (cases r)
    case (Return info)
    have run: "main_ln lc answer confirm =
        effects @ [CreateMarkdownFile (generateMarkdown_ln lc info) (ln_slug info @ lit ''.md'')]"
      using Pair Return by (simp add: main_ln_def)
    show ?thesis
      unfolding run
      using fx Return generateMarkdown_ln_cover by (intro note_links_cover_append) auto
  next
    case (Exit n)
    with Pair fx show ?thesis
      by (simp add: main_ln_def note_links_cover_no_note)
  next
    case ReturnNull
    with Pair fx show ?thesis
      by (simp add: main_ln_def note_links_cover_no_note)
  qed
qed

lemma generateMarkdown_manga_shape:
  \<open>generateMarkdown_manga lc info isManga =
     (lit ''---\<newline>title: "'' @ manga_title info @
      lit ''"\<newline>rating:\<newline>year: "'' @
      (case manga_year info of None \<Rightarrow> [] | Some y \<Rightarrow> num_to_string y) @
      lit ''"\<newline>tags:\<newline>    - '' @ (if isManga then lit ''manga'' else lit ''manhwa'') @
      lit ''\<newline>    '' @
      template_opt (map_option (tag_lines (slugify lc)) (manga_genres info)) @
      lit ''\<newline>    '' @
      template_opt (map_option (tag_lines (slugify lc)) (manga_themes info)) @
      lit ''\<newline>    - wishlist'') @
     lit ''\<newline>'' @ cover_field (manga_slug info @ lit ''.jpg'') @
     lit ''\<newline>---\<newline>> [!NOTE] Summary\<newline>'' @
     template_opt (map_option quote_lines (manga_summary info))\<close>
  by (simp add: generateMarkdown_manga_def cover_field_def lit_def)

lemma generateMarkdown_manga_cover:
  \<open>\<exists>pre post. generateMarkdown_manga lc info isManga =
     pre @ lit ''\<newline>'' @ cover_field (manga_slug info @ lit ''.jpg'') @
       lit ''\<newline>---\<newline>> [!NOTE] Summary\<newline>'' @ post\<close>
  by (rule exI, rule exI, rule generateMarkdown_manga_shape)

lemma fetchMangaById_effects:
  assumes "fetchMangaById lc mangaId answer covers confirm = (r, effects)"
  shows "(\<forall>content md. CreateMarkdownFile content md \<notin> set effects) \<and>
    (\<forall>info url img. r = Return info \<and> DownloadImage url img \<in> set effects \<longrightarrow>
       img = manga_slug info @ lit ''.jpg'')"
  using assms
  by (auto simp: fetchMangaById_def Let_def dest: download_cover_effects
      split: api_answer.splits if_splits option.splits)

lemma note_links_cover_manga: "note_links_cover (main_manga lc mangaId isManga answer covers confirm)"
proof (cases "fetchMangaById lc mangaId answer covers confirm")
  case (Pair r effects)
  note fx = fetchMangaById_effects [OF Pair]
  show ?thesis
  proof (cases r)
    case (Return info)
    have run: "main_manga lc mangaId isManga answer covers confirm =
        effects @ [CreateMarkdownFile (generateMarkdown_manga lc info isManga) (manga_slug info @ lit ''.md'')]"
      using Pair Return by (simp add: main_manga_def)
    show ?thesis
      unfolding run
      using fx Return generateMarkdown_manga_cover by (intro note_links_cover_append) auto
  next
    case (Exit n)
    with Pair fx show ?thesis
      by (simp add: main_manga_def note_links_cover_no_note)
  next
    case ReturnNull
    with Pair fx show ?thesis
      by (simp add: main_manga_def note_links_cover_no_note)
  qed
qed

lemma generateMarkdown_game_shape:
  \<open>generateMarkdown_game info =
     (lit ''---\<newline>title: "'' @ game_title info @
      lit ''"\<newline>rating:\<newline>release_date: "'' @ template_opt (game_release_date info) @
      lit ''"\<newline>tags:\<newline>    - game\<newline>    '' @
      template_opt (map_option (tag_lines (\<lambda>genre. genre)) (game_genres info)) @
      lit ''\<newline>    '' @
      template_opt (map_option (tag_lines (\<lambda>theme. theme)) (game_themes info)) @
      lit ''\<newline>    - wishlist'') @
     lit ''\<newline>'' @ cover_field (game_slug info @ lit ''.jpg'') @
     lit ''\<newline>---\<newline>> [!NOTE] Summary\<newline>'' @
     template_opt (map_option quote_lines (game_summary info))\<close>
  by (simp add: generateMarkdown_game_def cover_field_def lit_def)

lemma generateMarkdown_game_cover:
  \<open>\<exists>pre post. generateMarkdown_game info =
     pre @ lit ''\<newline>'' @ cover_field (game_slug info @ lit ''.jpg'') @
       lit ''\<newline>---\<newline>> [!NOTE] Summary\<newline>'' @ post\<close>
  by (rule exI, rule exI, rule generateMarkdown_game_shape)

lemma fetchGameById_effects:
  assumes "fetchGameById fd token_ok answer confirm = (r, effects)"
  shows "(\<forall>content md. CreateMarkdownFile content md \<notin> set effects) \<and>
    (\<forall>info url img. r = Return info \<and> DownloadImage url img \<in> set effects \<longrightarrow>
       img = game_slug info @ lit ''.jpg'')"
  using assms
  by (auto simp: fetchGameById_def Let_def dest: download_cover_effects
      split: api_answer.splits if_splits option.splits)

lemma note_links_cover_game: "note_links_cover (main_game fd token_ok answer confirm)"
proof (cases "fetchGameById fd token_ok answer confirm")
  case (Pair r effects)
  note fx = fetchGameById_effects [OF Pair]
  show ?thesis
  proof (cases r)
    case (Return info)
    have run: "main_game fd token_ok answer confirm =
        effects @ [CreateMarkdownFile (generateMarkdown_game info) (game_slug info @ lit ''.md'')]"
      using Pair Return by (simp add: main_game_def)
    show ?thesis
      unfolding run
      using fx Return generateMarkdown_game_cover by (intro note_links_cover_append) auto
  next
    case (Exit n)
    with Pair fx show ?thesis
      by (simp add: main_game_def note_links_cover_no_note)
  next
    case ReturnNull
    with Pair fx show ?thesis
      by (simp add: main_game_def note_links_cover_no_note)
  qed
qed

lemma generateMarkdown_media_shape:
  \<open>generateMarkdown_media lc info media =
     (lit ''---\<newline>title: "'' @ media_title info @
      lit ''"\<newline>rating:\<newline>release_date: "'' @ template_opt (media_release_date info) @
      lit ''"\<newline>tags:\<newline>    - '' @ media @ lit ''\<newline>    '' @
      template_opt (map_option (tag_lines (slugify lc)) (media_genres info)) @
      lit ''\<newline>    - watchlist'') @
     lit ''\<newline>'' @ cover_field (media_slug info @ lit ''.jpg'') @
     lit ''\<newline>---\<newline>> [!NOTE] Summary\<newline>'' @
     template_opt (map_option quote_lines (media_summary info))\<close>
  by (simp add: generateMarkdown_media_def cover_field_def lit_def)

lemma generateMarkdown_media_cover:
  \<open>\<exists>pre post. generateMarkdown_media lc info media =
     pre @ lit ''\<newline>'' @ cover_field (media_slug info @ lit ''.jpg'') @
       lit ''\<newline>---\<newline>> [!NOTE] Summary\<newline>'' @ post\<close>
  by (rule exI, rule exI, rule generateMarkdown_media_shape)

lemma fetchMovieById_effects:
  assumes "fetchMovieById lc answer confirm = (r, effects)"
  shows "(\<forall>content md. CreateMarkdownFile content md \<notin> set effects) \<and>
    (\<forall>info url img. r = Return info \<and> DownloadImage url img \<in> set effects \<longrightarrow>
       img = media_slug info @ lit ''.jpg'')"
  using assms
  by (auto simp: fetchMovieById_def Let_def dest: download_cover_effects
      split: api_answer.splits if_splits option.splits)

lemma fetchSerieById_effects:
  assumes "fetchSerieById lc answer media_type confirm = (r, effects)"
  shows "(\<forall>content md. CreateMarkdownFile content md \<notin> set effects) \<and>
    (\<forall>info url img. r = Return info \<and> DownloadImage url img \<in> set effects \<longrightarrow>
       img = media_slug info @ lit ''.jpg'')"
  using assms
  by (auto simp: fetchSerieById_def Let_def dest: download_cover_effects
      split: api_answer.splits if_splits option.splits)

lemma note_links_cover_media: "note_links_cover (main_media lc media_type answer confirm)"
proof -
  define fetched where "fetched =
    (if media_type = 1 then fetchMovieById lc answer confirm
     else fetchSerieById lc answer media_type confirm)"
  define media where "media =
    (if media_type = 1 then lit ''movie'' else if media_type = 2 then lit ''serie'' else lit ''anime'')"
  obtain r effects where Pair: "fetched = (r, effects)"
    by (cases fetched)
  have fx: "(\<forall>content md. CreateMarkdownFile content md \<notin> set effects) \<and>
    (\<forall>info url img. r = Return info \<and> DownloadImage url img \<in> set effects \<longrightarrow>
       img = media_slug info @ lit ''.jpg'')"
  proof (cases "media_type = 1")
    case True
    with Pair have "fetchMovieById lc answer confirm = (r, effects)"
      by (simp add: fetched_def)
    then show ?thesis
      by (rule fetchMovieById_effects)
  next
    case False
    with Pair have "fetchSerieById lc answer media_type confirm = (r, effects)"
      by (simp add: fetched_def)
    then show ?thesis
      by (rule fetchSerieById_effects)
  qed
  show ?thesis
  proof (cases r)
    case (Return info)
    have run: "main_media lc media_type answer confirm =
        effects @ [CreateMarkdownFile (generateMarkdown_media lc info media)
          (media_slug info @ lit ''.md'')]"
      using Pair Return unfolding main_media_def fetched_def [symmetric] media_def [symmetric]
      by simp
    show ?thesis
      unfolding run
      using fx Return generateMarkdown_media_cover by (intro note_links_cover_append) auto
  next
    case (Exit n)
    with Pair fx show ?thesis
      unfolding main_media_def fetched_def [symmetric]
      by (simp add: note_links_cover_no_note)
  next
    case ReturnNull
    with Pair fx show ?thesis
      unfolding main_media_def fetched_def [symmetric]
      by (simp add: note_links_cover_no_note)
  qed
qed

lemma fetched_run_intro:
  assumes \<open>\<exists>pre post. note =
       pre @ lit ''\<newline>'' @ cover_field (slug @ lit ''.jpg'') @
         lit ''\<newline>---\<newline>> [!NOTE] Summary\<newline>'' @ post\<close>
  shows \<open>fetched_run slug (if_truthy cover)
    (download_cover cover slug @ [CreateMarkdownFile note (slug @ lit ''.md'')])\<close>
  using assms
  by (auto simp: fetched_run_def download_cover_def if_truthy_def truthy_def template_opt_def
      split: option.splits)

lemma main_book_fetched:
  "fetched_run (slugify lc (vi_title b)) (if_truthy (getCoverUrl (vi_imageLinks b)))
     (main_book lc (ApiItem b) True)"
proof -
  have "\<exists>info. fetchBookByIsbn lc (ApiItem b) True =
      (Return info, download_cover (getCoverUrl (vi_imageLinks b)) (book_slug info)) \<and>
      book_slug info = slugify lc (vi_title b)"
    by (simp add: fetchBookByIsbn_def Let_def)
  then obtain info where "book_slug info = slugify lc (vi_title b)"
    and "main_book lc (ApiItem b) True =
      download_cover (getCoverUrl (vi_imageLinks b)) (book_slug info) @
      [CreateMarkdownFile (generateMarkdown_book lc info) (book_slug info @ lit ''.md'')]"
    by (auto simp: main_book_def)
  then show ?thesis
    using generateMarkdown_book_cover [of lc info] fetched_run_intro by metis
qed

lemma main_ln_fetched:
  assumes "ls_start_date s = Some start_date" and "ls_book_description s = Some description"
  shows "fetched_run (slugify lc (ls_title s)) (if_truthy (getCoverUrl_ln s))
     (main_ln lc (ApiItem s) True)"
proof -
  have "\<exists>info. fetchLightNovelById lc (ApiItem s) True =
      (Return info, download_cover (getCoverUrl_ln s) (ln_slug info)) \<and>
      ln_slug info = slugify lc (ls_title s)"
    using assms by (simp add: fetchLightNovelById_def Let_def)
  then obtain info where "ln_slug info = slugify lc (ls_title s)"
    and "main_ln lc (ApiItem s) True =
      download_cover (getCoverUrl_ln s) (ln_slug info) @
      [CreateMarkdownFile (generateMarkdown_ln lc info) (ln_slug info @ lit ''.md'')]"
    by (auto simp: main_ln_def)
  then show ?thesis
    using generateMarkdown_ln_cover [of lc info] fetched_run_intro by metis
qed

lemma main_media_fetched:
  "fetched_run (slugify lc (tmdb_title m)) (if_truthy (poster_url (tmdb_poster_path m)))
     (main_media lc media_type (ApiItem m) True)"
proof -
  define fetched where "fetched =
    (if media_type = 1 then fetchMovieById lc (ApiItem m) True
     else fetchSerieById lc (ApiItem m) media_type True)"
  define media where "media =
    (if media_type = 1 then lit ''movie'' else if media_type = 2 then lit ''serie'' else lit ''anime'')"
  have "\<exists>info. fetched =
      (Return info, download_cover (poster_url (tmdb_poster_path m)) (media_slug info)) \<and>
      media_slug info = slugify lc (tmdb_title m)"
    by (simp add: fetched_def fetchMovieById_def fetchSerieById_def Let_def)
  then obtain info where "media_slug info = slugify lc (tmdb_title m)"
    and "main_media lc media_type (ApiItem m) True =
      download_cover (poster_url (tmdb_poster_path m)) (media_slug info) @
      [CreateMarkdownFile (generateMarkdown_media lc info media) (media_slug info @ lit ''.md'')]"
    unfolding main_media_def fetched_def [symmetric] media_def [symmetric] by auto
  then show ?thesis
    using generateMarkdown_media_cover [of lc info media] fetched_run_intro by metis
qed

lemma main_manga_fetched:
  "fetched_run (slugify lc (ma_title_en a)) (if_truthy (fetchCoverById mangaId covers))
     (main_manga lc mangaId isManga (ApiItem a) covers True)"
proof -
  have "\<exists>info. fetchMangaById lc mangaId (ApiItem a) covers True =
      (Return info, download_cover (fetchCoverById mangaId covers) (manga_slug info)) \<and>
      manga_slug info = slugify lc (ma_title_en a)"
    by (simp add: fetchMangaById_def Let_def)
  then obtain info where "manga_slug info = slugify lc (ma_title_en a)"
    and "main_manga lc mangaId isManga (ApiItem a) covers True =
      download_cover (fetchCoverById mangaId covers) (manga_slug info) @
      [CreateMarkdownFile (generateMarkdown_manga lc info isManga) (manga_slug info @ lit ''.md'')]"
    by (auto simp: main_manga_def)
  then show ?thesis
    using generateMarkdown_manga_cover [of lc info isManga] fetched_run_intro by metis
qed

lemma main_game_fetched:
  assumes "gf_cover g = Some url"
  shows "fetched_run (gf_slug g) (map_option game_cover_url (if_truthy url))
     (main_game fd True (ApiItem g) True)"
proof -
  have "\<exists>info. fetchGameById fd True (ApiItem g) True =
      (Return info,
       if truthy url
       then [DownloadImage (game_cover_url (template_opt url)) (game_slug info @ lit ''.jpg'')]
       else []) \<and>
      game_slug info = gf_slug g"
    using assms by (simp add: fetchGameById_def Let_def)
  then obtain info where sl: "game_slug info = gf_slug g"
    and run: "main_game fd True (ApiItem g) True =
      (if truthy url
       then [DownloadImage (game_cover_url (template_opt url)) (game_slug info @ lit ''.jpg'')]
       else []) @
      [CreateMarkdownFile (generateMarkdown_game info) (game_slug info @ lit ''.md'')]"
    by (auto simp: main_game_def)
  obtain pre post where "generateMarkdown_game info =
       pre @ lit ''\<newline>'' @ cover_field (game_slug info @ lit ''.jpg'') @
         lit ''\<newline>---\<newline>> [!NOTE] Summary\<newline>'' @ post"
    using generateMarkdown_game_cover [of info] by blast
  then show ?thesis
    unfolding run fetched_run_def sl [symmetric]
    by (auto simp: if_truthy_def truthy_def template_opt_def split: option.splits)
qed

text \<open>
  Claim C10. In every run of the book, light-novel, movie and series, manga and game
  scripts, a note that is created is named \<open><slug>.md\<close>, its cover field is
  \<open>[[<slug>.jpg]]\<close>, and a cover image that is downloaded is named \<open><slug>.jpg\<close>, with the
  same slug. And when the item was fetched and confirmed, the run is exactly: the cover
  downloaded to \<open><slug>.jpg\<close>, when there is a URL for it, then the note created as
  \<open><slug>.md\<close> with the cover field \<open>[[<slug>.jpg]]\<close>; the slug is the one computed from
  the title, or for a game the slug of the API.
\<close>

theorem cover_link_consistent:
  "note_links_cover (main_book toLowerCase book_answer confirm) \<and>
   note_links_cover (main_ln toLowerCase ln_answer confirm) \<and>
   note_links_cover (main_media toLowerCase media_type media_answer confirm) \<and>
   note_links_cover (main_manga toLowerCase mangaId isManga manga_answer covers_answer confirm) \<and>
   note_links_cover (main_game format_date token_ok game_answer confirm) \<and>
   fetched_run (slugify toLowerCase (vi_title book)) (if_truthy (getCoverUrl (vi_imageLinks book)))
     (main_book toLowerCase (ApiItem book) True) \<and>
   (ls_start_date series \<noteq> None \<and> ls_book_description series \<noteq> None \<longrightarrow>
    fetched_run (slugify toLowerCase (ls_title series)) (if_truthy (getCoverUrl_ln series))
      (main_ln toLowerCase (ApiItem series) True)) \<and>
   fetched_run (slugify toLowerCase (tmdb_title show))
     (if_truthy (poster_url (tmdb_poster_path show)))
     (main_media toLowerCase media_type (ApiItem show) True) \<and>
   fetched_run (slugify toLowerCase (ma_title_en manga))
     (if_truthy (fetchCoverById mangaId covers_answer))
     (main_manga toLowerCase mangaId isManga (ApiItem manga) covers_answer True) \<and>
   (\<forall>url. gf_cover game = Some url \<longrightarrow>
    fetched_run (gf_slug game) (map_option game_cover_url (if_truthy url))
      (main_game format_date True (ApiItem game) True))"
  using note_links_cover_book note_links_cover_ln note_links_cover_media
    note_links_cover_manga note_links_cover_game
    main_book_fetched main_ln_fetched main_media_fetched main_manga_fetched main_game_fetched
  by auto

text \<open>What the five scripts do on the sample items, in full.\<close>

lemma main_book_sample:
  \<open>main_book ascii_toLowerCase (ApiItem sample_volume) True =
     [DownloadImage (lit ''http://books.example/dune'') (lit ''dune-part-one.jpg''),
      CreateMarkdownFile
        (lit ''---\<newline>title: "Dune: Part One"\<newline>rating:\<newline>year: "1965"\<newline>tags:\<newline>    - book\<newline>    - science-fiction\<newline>    - wishlist\<newline>cover: "[[dune-part-one.jpg]]"\<newline>---\<newline>> [!NOTE] Summary\<newline>> Line one\<newline>> Line two'')
        (lit ''dune-part-one.md'')]\<close>
  by code_simp

lemma main_ln_sample:
  \<open>main_ln ascii_toLowerCase (ApiItem sample_series) True =
     [DownloadImage (lit ''https://images.ranobedb.org/b1.jpg'') (lit ''spice-wolf.jpg''),
      CreateMarkdownFile
        (lit ''---\<newline>title: "Spice & Wolf"\<newline>rating:\<newline>year: "2006"\<newline>tags:\<newline>    - lightnovel\<newline>    - fantasy\<newline>    - romance\<newline>    - merchants\<newline>    - wishlist\<newline>cover: "[[spice-wolf.jpg]]"\<newline>---\<newline>> [!NOTE] Summary\<newline>> A merchant meets a wolf.'')
        (lit ''spice-wolf.md'')]\<close>
  by code_simp

lemma main_media_sample:
  \<open>main_media ascii_toLowerCase 3 (ApiItem sample_show) True =
     [DownloadImage (lit ''https://image.tmdb.org/t/p/original/p.jpg'') (lit ''cowboy-bebop.jpg''),
      CreateMarkdownFile
        (lit ''---\<newline>title: "Cowboy Bebop"\<newline>rating:\<newline>release_date: "1998-04-03"\<newline>tags:\<newline>    - anime\<newline>    - animation\<newline>    - sci-fi-fantasy\<newline>    - watchlist\<newline>cover: "[[cowboy-bebop.jpg]]"\<newline>---\<newline>> [!NOTE] Summary\<newline>> Bounty hunters.'')
        (lit ''cowboy-bebop.md'')]\<close>
  by code_simp

lemma main_manga_sample:
  \<open>main_manga ascii_toLowerCase (lit ''32d76d19'') False (ApiItem sample_manga)
       (ApiItem [lit ''c1.jpg'', lit ''c2.jpg'']) True =
     [DownloadImage (lit ''https://uploads.mangadex.org/covers/32d76d19/c1.jpg'')
        (lit ''solo-leveling.jpg''),
      CreateMarkdownFile
        (lit ''---\<newline>title: "Solo Leveling"\<newline>rating:\<newline>year: "2018"\<newline>tags:\<newline>    - manhwa\<newline>    - action\<newline>    - monsters\<newline>    - wishlist\<newline>cover: "[[solo-leveling.jpg]]"\<newline>---\<newline>> [!NOTE] Summary\<newline>> No summary available.'')
        (lit ''solo-leveling.md'')]\<close>
  by code_simp

lemma main_game_sample:
  \<open>main_game (\<lambda>d. lit ''2024-05-06'') True (ApiItem sample_game) True =
     [DownloadImage (lit ''https://images.igdb.com/t_original/co1.jpg'') (lit ''hades-ii.jpg''),
      CreateMarkdownFile
        (lit ''---\<newline>title: "Hades II"\<newline>rating:\<newline>release_date: "2024-05-06"\<newline>tags:\<newline>    - game\<newline>    - indie\<newline>    - unknown\<newline>    - wishlist\<newline>cover: "[[hades-ii.jpg]]"\<newline>---\<newline>> [!NOTE] Summary\<newline>> No summary available.'')
        (lit ''hades-ii.md'')]\<close>
  by code_simp

lemma sample_slugs:
  "slugify ascii_toLowerCase (vi_title sample_volume) = lit ''dune-part-one''"
  "slugify ascii_toLowerCase (ls_title sample_series) = lit ''spice-wolf''"
  "slugify ascii_toLowerCase (tmdb_title sample_show) = lit ''cowboy-bebop''"
  "slugify ascii_toLowerCase (ma_title_en sample_manga) = lit ''solo-leveling''"
  "gf_slug sample_game = lit ''hades-ii''"
  by code_simp+

lemma sample_covers:
  "if_truthy (getCoverUrl (vi_imageLinks sample_volume)) = Some (lit ''http://books.example/dune'')"
  "if_truthy (getCoverUrl_ln sample_series) = Some (lit ''https://images.ranobedb.org/b1.jpg'')"
  "if_truthy (poster_url (tmdb_poster_path sample_show)) =
     Some (lit ''https://image.tmdb.org/t/p/original/p.jpg'')"
  "if_truthy (fetchCoverById (lit ''32d76d19'') (ApiItem [lit ''c1.jpg'', lit ''c2.jpg''])) =
     Some (lit ''https://uploads.mangadex.org/covers/32d76d19/c1.jpg'')"
  "map_option game_cover_url (if_truthy (Some (lit ''//images.igdb.com/t_thumb/co1.jpg''))) =
     Some (lit ''https://images.igdb.com/t_original/co1.jpg'')"
  by code_simp+

text \<open>The runs of the five scripts on the sample items.\<close>

theorem cover_link_consistent_witness:
  "fetched_run (lit ''dune-part-one'') (Some (lit ''http://books.example/dune''))
     (main_book ascii_toLowerCase (ApiItem sample_volume) True) \<and>
   fetched_run (lit ''spice-wolf'') (Some (lit ''https://images.ranobedb.org/b1.jpg''))
     (main_ln ascii_toLowerCase (ApiItem sample_series) True) \<and>
   fetched_run (lit ''cowboy-bebop'') (Some (lit ''https://image.tmdb.org/t/p/original/p.jpg''))
     (main_media ascii_toLowerCase 3 (ApiItem sample_show) True) \<and>
   fetched_run (lit ''solo-leveling'')
     (Some (lit ''https://uploads.mangadex.org/covers/32d76d19/c1.jpg''))
     (main_manga ascii_toLowerCase (lit ''32d76d19'') False (ApiItem sample_manga)
        (ApiItem [lit ''c1.jpg'', lit ''c2.jpg'']) True) \<and>
   fetched_run (lit ''hades-ii'') (Some (lit ''https://images.igdb.com/t_original/co1.jpg''))
     (main_game (\<lambda>d. lit ''2024-05-06'') True (ApiItem sample_game) True) \<and>
   note_links_cover (main_book ascii_toLowerCase (ApiItem sample_volume) True) \<and>
   note_links_cover (main_game (\<lambda>d. lit ''2024-05-06'') True (ApiItem sample_game) True)"
proof -
  have h1: "ls_start_date sample_series \<noteq> None \<and> ls_book_description sample_series \<noteq> None"
    by (simp add: sample_series_def)
  have h2: "gf_cover sample_game = Some (Some (lit ''//images.igdb.com/t_thumb/co1.jpg''))"
    by (simp add: sample_game_def)
  show ?thesis
    using cover_link_consistent [of ascii_toLowerCase "ApiItem sample_volume" True
      "ApiItem sample_series" 3 "ApiItem sample_show" "lit ''32d76d19''" False
      "ApiItem sample_manga" "ApiItem [lit ''c1.jpg'', lit ''c2.jpg'']"
      "\<lambda>d. lit ''2024-05-06''" True "ApiItem sample_game"
      sample_volume sample_series sample_show sample_manga sample_game] h1 h2
    by (simp add: sample_slugs sample_covers)
qed

end
